theory Spec2Isabelle
  imports Complex_Main
begin

section \<open>Numeric values\<close>

text \<open>
  The functions of \<^verbatim>\<open>lib/analysis/modules/Mapper.py\<close> compute with Python floats and
  numpy float64 values. The model takes them as exact real numbers extended with the three
  special values a numpy operation can produce (\<open>nan\<close>, \<open>inf\<close>, \<open>-inf\<close>). Rounding,
  overflow and signed zeros are not modelled: every theorem below is about this exact
  arithmetic.
\<close>

datatype pyfloat = Fin real | PInf | MInf | NaN

text \<open>Python exceptions that the modelled functions can raise.\<close>

datatype pyexc = TypeError | ValueError | ZeroDivisionError | OverflowError
  | AssertionError | NameError

fun fl_neg :: "pyfloat \<Rightarrow> pyfloat" where
  "fl_neg (Fin a) = Fin (- a)"
| "fl_neg PInf = MInf"
| "fl_neg MInf = PInf"
| "fl_neg NaN = NaN"

fun fl_add :: "pyfloat \<Rightarrow> pyfloat \<Rightarrow> pyfloat" where
  "fl_add NaN _ = NaN"
| "fl_add _ NaN = NaN"
| "fl_add (Fin a) (Fin b) = Fin (a + b)"
| "fl_add PInf MInf = NaN"
| "fl_add MInf PInf = NaN"
| "fl_add PInf _ = PInf"
| "fl_add _ PInf = PInf"
| "fl_add MInf _ = MInf"
| "fl_add _ MInf = MInf"

definition fl_sub :: "pyfloat \<Rightarrow> pyfloat \<Rightarrow> pyfloat" where
  "fl_sub a b = fl_add a (fl_neg b)"

text \<open>The sign of a value that is not \<open>nan\<close>: \<open>1\<close>, \<open>0\<close> or \<open>-1\<close>.\<close>

fun fl_sgn :: "pyfloat \<Rightarrow> int" where
  "fl_sgn (Fin a) = (if 0 < a then 1 else if a < 0 then - 1 else 0)"
| "fl_sgn PInf = 1"
| "fl_sgn MInf = - 1"
| "fl_sgn NaN = 0"

definition fl_inf :: "int \<Rightarrow> pyfloat" where
  "fl_inf s = (if 0 < s then PInf else if s < 0 then MInf else NaN)"

fun fl_mul :: "pyfloat \<Rightarrow> pyfloat \<Rightarrow> pyfloat" where
  "fl_mul NaN _ = NaN"
| "fl_mul _ NaN = NaN"
| "fl_mul (Fin a) (Fin b) = Fin (a * b)"
| "fl_mul a b = fl_inf (fl_sgn a * fl_sgn b)"

text \<open>
  Division as numpy does it on float64 operands: no exception; a division by zero gives
  an infinity of the sign of the numerator, \<open>0/0\<close> and \<open>inf/inf\<close> give \<open>nan\<close>.
\<close>

fun fl_div :: "pyfloat \<Rightarrow> pyfloat \<Rightarrow> pyfloat" where
  "fl_div NaN _ = NaN"
| "fl_div _ NaN = NaN"
| "fl_div (Fin a) (Fin b) = (if b = 0 then fl_inf (fl_sgn (Fin a)) else Fin (a / b))"
| "fl_div (Fin a) _ = Fin 0"
| "fl_div a (Fin b) = fl_inf (fl_sgn a * (if b < 0 then - 1 else 1))"
| "fl_div _ _ = NaN"

text \<open>Comparison of float64 values: every comparison with \<open>nan\<close> is false.\<close>

fun fl_le :: "pyfloat \<Rightarrow> pyfloat \<Rightarrow> bool" where
  "fl_le NaN _ = False"
| "fl_le _ NaN = False"
| "fl_le (Fin a) (Fin b) = (a \<le> b)"
| "fl_le MInf _ = True"
| "fl_le _ PInf = True"
| "fl_le _ _ = False"

definition fl_less :: "pyfloat \<Rightarrow> pyfloat \<Rightarrow> bool" where
  "fl_less a b = (fl_le a b \<and> a \<noteq> b)"

definition isnan :: "pyfloat \<Rightarrow> bool" where
  "isnan a = (a = NaN)"

section \<open>The Poisson distribution function\<close>

text \<open>
  \<^verbatim>\<open>scipy.stats.poisson(mu).cdf(k)\<close> is a library function, not code of this repository.
  It is modelled as the distribution function of the Poisson law of mean \<open>mu\<close>:
  \<open>exp (- mu) * (\<Sum>j\<le>\<lfloor>k\<rfloor>. mu ^ j / j!)\<close> for \<open>0 \<le> k\<close>, \<open>0\<close> for \<open>k < 0\<close>, and, as scipy
  does for a parameter outside the domain of the law, \<open>nan\<close> for \<open>mu < 0\<close>.
\<close>

primrec exp_series :: "nat \<Rightarrow> real \<Rightarrow> real" where
  "exp_series 0 mu = 1"
| "exp_series (Suc k) mu = exp_series k mu + mu ^ Suc k / fact (Suc k)"

definition poisson_cdf :: "real \<Rightarrow> real \<Rightarrow> pyfloat" where
  "poisson_cdf k mu =
     (if mu < 0 then NaN
      else if k < 0 then Fin 0
      else Fin (exp (- mu) * exp_series (nat \<lfloor>k\<rfloor>) mu))"

section \<open>Arrays\<close>

text \<open>
  A one-dimensional numpy array is a list of float64 values. \<open>sum\<close>, \<open>min\<close> and \<open>max\<close>
  propagate \<open>nan\<close>; \<open>min\<close> and \<open>max\<close> of an empty array raise \<open>ValueError\<close>.
\<close>

definition np_sum :: "pyfloat list \<Rightarrow> pyfloat" where
  "np_sum xs = foldr fl_add xs (Fin 0)"

definition fl_min :: "pyfloat \<Rightarrow> pyfloat \<Rightarrow> pyfloat" where
  "fl_min a b = (if isnan a \<or> isnan b then NaN else if fl_le a b then a else b)"

definition fl_max :: "pyfloat \<Rightarrow> pyfloat \<Rightarrow> pyfloat" where
  "fl_max a b = (if isnan a \<or> isnan b then NaN else if fl_le a b then b else a)"

fun np_min :: "pyfloat list \<Rightarrow> pyexc + pyfloat" where
  "np_min [] = Inl ValueError"
| "np_min (x # xs) = Inr (foldl fl_min x xs)"

fun np_max :: "pyfloat list \<Rightarrow> pyexc + pyfloat" where
  "np_max [] = Inl ValueError"
| "np_max (x # xs) = Inr (foldl fl_max x xs)"

text \<open>
  An elementwise operation on two arrays: equal lengths pair up, an array of length one
  is broadcast, any other pair of lengths raises \<open>ValueError\<close>.
\<close>

definition np_broadcast ::
  "('a \<Rightarrow> 'b \<Rightarrow> 'c) \<Rightarrow> 'a list \<Rightarrow> 'b list \<Rightarrow> pyexc + 'c list" where
  "np_broadcast f xs ys =
     (if length xs = length ys then Inr (map2 f xs ys)
      else if length xs = 1 then Inr (map (f (hd xs)) ys)
      else if length ys = 1 then Inr (map (\<lambda>x. f x (hd ys)) xs)
      else Inl ValueError)"

text \<open>\<^verbatim>\<open>1. / a\<close> and \<^verbatim>\<open>1.0 - a\<close> on an array \<open>a\<close>.\<close>

definition np_recip :: "pyfloat list \<Rightarrow> pyfloat list" where
  "np_recip xs = map (fl_div (Fin 1)) xs"

definition np_one_minus :: "pyfloat list \<Rightarrow> pyfloat list" where
  "np_one_minus xs = map (fl_sub (Fin 1)) xs"

text \<open>
  The slice \<^verbatim>\<open>a[i1:i2]\<close>: a negative index counts from the end, and both indices are
  clipped to the length of the array.
\<close>

definition slice_index :: "nat \<Rightarrow> int \<Rightarrow> nat" where
  "slice_index n i = (if i < 0 then nat (max (i + int n) 0) else min (nat i) n)"

definition py_slice :: "'a list \<Rightarrow> int \<Rightarrow> int \<Rightarrow> 'a list" where
  "py_slice xs i1 i2 =
     (let lo = slice_index (length xs) i1; hi = slice_index (length xs) i2
      in take (hi - lo) (drop lo xs))"

text \<open>
  \<^verbatim>\<open>int(x)\<close> on a float64: truncation towards zero; \<open>nan\<close> raises \<open>ValueError\<close>, an
  infinity raises \<open>OverflowError\<close>.
\<close>

fun py_int :: "pyfloat \<Rightarrow> pyexc + int" where
  "py_int (Fin x) = Inr (if 0 \<le> x then \<lfloor>x\<rfloor> else \<lceil>x\<rceil>)"
| "py_int NaN = Inl ValueError"
| "py_int _ = Inl OverflowError"

text \<open>\<^verbatim>\<open>np.linspace(a, b, n)\<close> for \<open>2 \<le> n\<close>.\<close>

definition linspace :: "real \<Rightarrow> real \<Rightarrow> nat \<Rightarrow> real list" where
  "linspace a b n = map (\<lambda>j. a + real j * ((b - a) / real (n - 1))) [0..<n]"

text \<open>Sequencing of computations that may raise.\<close>

definition exc_bind :: "pyexc + 'a \<Rightarrow> ('a \<Rightarrow> pyexc + 'b) \<Rightarrow> pyexc + 'b" where
  "exc_bind m f = (case m of Inl e \<Rightarrow> Inl e | Inr x \<Rightarrow> f x)"

section \<open>Event sequences\<close>

text \<open>
  The functions receive the event times either as a Python list of floats or as a numpy
  array (the callers of lines 562 and 703 pass arrays, \<^verbatim>\<open>list(ev)\<close> of line 210 makes a
  list). The two differ in arithmetic: \<^verbatim>\<open>a - 1\<close> and \<^verbatim>\<open>2.0 * a\<close> are elementwise on an
  array and raise \<open>TypeError\<close> on a list.
\<close>

datatype pyseq = PyList "real list" | NdArray "real list"

fun items :: "pyseq \<Rightarrow> real list" where
  "items (PyList xs) = xs"
| "items (NdArray xs) = xs"

text \<open>\<^verbatim>\<open>ev[i:]\<close> for \<open>0 \<le> i\<close> keeps the kind of the sequence.\<close>

fun seq_from :: "nat \<Rightarrow> pyseq \<Rightarrow> pyseq" where
  "seq_from i (PyList xs) = PyList (drop i xs)"
| "seq_from i (NdArray xs) = NdArray (drop i xs)"

text \<open>\<^verbatim>\<open>ev2 = list(ev); ev2.pop(i)\<close> for an index \<open>i\<close> within the sequence.\<close>

definition list_pop :: "nat \<Rightarrow> pyseq \<Rightarrow> pyseq" where
  "list_pop i ev = PyList (take i (items ev) @ drop (Suc i) (items ev))"

section \<open>The first definition of \<^verbatim>\<open>poissonProb\<close> (line 121)\<close>

text \<open>
  \<^verbatim>\<open>
  def poissonProb(events, xvals, rate, correctForSelection=False):
      y = []
      for i in range(len(xvals)):
          x = xvals[i]
          e = 0
          if correctForSelection:
              e = 1./rate
          y.append(stats.poisson(rate * (x+e)).cdf(i+1))
      return 1.0-np.array(y)
  \<close>
  The parameter \<open>events\<close> is not used by the body. \<^verbatim>\<open>1./rate\<close> on a Python float raises
  \<open>ZeroDivisionError\<close> for \<open>rate = 0\<close>. The specification calls this function
  \<open>windowedExceedanceProbability\<close>.
\<close>

fun poissonProb_121_loop :: "nat \<Rightarrow> real list \<Rightarrow> real \<Rightarrow> bool \<Rightarrow> pyexc + pyfloat list" where
  "poissonProb_121_loop i [] rate correctForSelection = Inr []"
| "poissonProb_121_loop i (x # xs) rate correctForSelection =
     (if correctForSelection \<and> rate = 0 then Inl ZeroDivisionError
      else
        let e = (if correctForSelection then 1 / rate else 0);
            y = poisson_cdf (real (i + 1)) (rate * (x + e))
        in exc_bind (poissonProb_121_loop (Suc i) xs rate correctForSelection)
             (\<lambda>ys. Inr (y # ys)))"

definition poissonProb_121 :: "pyseq \<Rightarrow> pyseq \<Rightarrow> real \<Rightarrow> bool \<Rightarrow> pyexc + pyfloat list" where
  "poissonProb_121 events xvals rate correctForSelection =
     exc_bind (poissonProb_121_loop 0 (items xvals) rate correctForSelection)
       (\<lambda>y. Inr (np_one_minus y))"

section \<open>The second definition of \<^verbatim>\<open>poissonProb\<close> (line 266)\<close>

text \<open>
  \<^verbatim>\<open>
  def poissonProb(n, t, l):
      return stats.poisson(l*t).cdf(n-1)
  \<close>
  on an integer count \<open>n\<close> and float arguments \<open>t\<close>, \<open>l\<close>, as the call of line 369 has
  them. The specification calls this function \<open>probabilityOfAtLeastN\<close>.
\<close>

definition poissonProb_266 :: "int \<Rightarrow> real \<Rightarrow> real \<Rightarrow> pyfloat" where
  "poissonProb_266 n t l = poisson_cdf (of_int (n - 1)) (l * t)"

text \<open>
  The same body when \<open>n\<close> and \<open>t\<close> are sequences and \<open>l\<close> is a float. \<^verbatim>\<open>l*t\<close> is evaluated
  first and raises \<open>TypeError\<close> when \<open>t\<close> is a list; \<^verbatim>\<open>n-1\<close> is evaluated next and raises
  \<open>TypeError\<close> when \<open>n\<close> is a list; on two arrays the distribution function is applied
  elementwise.
\<close>

fun float_times :: "real \<Rightarrow> pyseq \<Rightarrow> pyexc + real list" where
  "float_times l (PyList ts) = Inl TypeError"
| "float_times l (NdArray ts) = Inr (map (\<lambda>x. l * x) ts)"

fun minus_one :: "pyseq \<Rightarrow> pyexc + real list" where
  "minus_one (PyList ns) = Inl TypeError"
| "minus_one (NdArray ns) = Inr (map (\<lambda>x. x - 1) ns)"

definition poissonProb_266_seq :: "pyseq \<Rightarrow> pyseq \<Rightarrow> real \<Rightarrow> pyexc + pyfloat list" where
  "poissonProb_266_seq n t l =
     exc_bind (float_times l t) (\<lambda>mu.
     exc_bind (minus_one n) (\<lambda>k.
       np_broadcast poisson_cdf k mu))"

section \<open>Module globals and calls of \<^verbatim>\<open>poissonProb\<close>\<close>

text \<open>
  The module binds the name \<open>poissonProb\<close> twice at top level: the \<^verbatim>\<open>def\<close> of line 121
  and the \<^verbatim>\<open>def\<close> of line 266. A \<^verbatim>\<open>def\<close> statement rebinds its name in the module globals
  when it is executed, and a function body looks a global name up when the call is
  evaluated. \<open>globals_at l\<close> is the binding of the names after the top-level statements up
  to line \<open>l\<close> have been executed.
\<close>

datatype fundef = PoissonProb_121 | PoissonProb_266

type_synonym globals = "string \<rightharpoonup> fundef"

definition module_defs :: "(nat \<times> string \<times> fundef) list" where
  "module_defs = [(121, ''poissonProb'', PoissonProb_121), (266, ''poissonProb'', PoissonProb_266)]"

fun exec_defs :: "nat \<Rightarrow> (nat \<times> string \<times> fundef) list \<Rightarrow> globals \<Rightarrow> globals" where
  "exec_defs l [] g = g"
| "exec_defs l ((line, name, f) # ds) g =
     (if line \<le> l then exec_defs l ds (g(name \<mapsto> f)) else g)"

definition globals_at :: "nat \<Rightarrow> globals" where
  "globals_at l = exec_defs l module_defs Map.empty"

text \<open>The parameter names of a definition and how many of the last ones have a default.\<close>

fun params :: "fundef \<Rightarrow> string list" where
  "params PoissonProb_121 = [''events'', ''xvals'', ''rate'', ''correctForSelection'']"
| "params PoissonProb_266 = [''n'', ''t'', ''l'']"

fun ndefaults :: "fundef \<Rightarrow> nat" where
  "ndefaults PoissonProb_121 = 1"
| "ndefaults PoissonProb_266 = 0"

text \<open>
  Argument binding of a call with \<open>npos\<close> positional arguments and the keyword arguments
  \<open>kws\<close>. Python raises \<open>TypeError\<close> when there are more positional arguments than
  parameters, when a keyword names no parameter or a parameter already given by position,
  and when a parameter without default receives no argument.
\<close>

definition binds :: "fundef \<Rightarrow> nat \<Rightarrow> string list \<Rightarrow> bool" where
  "binds f npos kws =
     (let ps = params f; given = take npos ps @ kws
      in npos \<le> length ps
         \<and> list_all (\<lambda>k. k \<in> set ps \<and> k \<notin> set (take npos ps)) kws
         \<and> list_all (\<lambda>p. p \<in> set given) (take (length ps - ndefaults f) ps))"

text \<open>
  A call \<^verbatim>\<open>poissonProb(a1, a2, a3)\<close> or \<^verbatim>\<open>poissonProb(a1, a2, a3, correctForSelection=c)\<close>
  with two sequences and a float, which is the form of the three calls in the module (lines
  153, 213 and 214). The keyword argument is \<open>None\<close> when the call does not give it.
\<close>

definition call_poissonProb ::
  "globals \<Rightarrow> pyseq \<Rightarrow> pyseq \<Rightarrow> real \<Rightarrow> bool option \<Rightarrow> pyexc + pyfloat list" where
  "call_poissonProb g a1 a2 a3 kw =
     (case g ''poissonProb'' of
        None \<Rightarrow> Inl NameError
      | Some f \<Rightarrow>
          if \<not> binds f 3 (case kw of None \<Rightarrow> [] | Some c \<Rightarrow> [''correctForSelection''])
          then Inl TypeError
          else (case f of
                  PoissonProb_121 \<Rightarrow>
                    poissonProb_121 a1 a2 a3 (case kw of None \<Rightarrow> False | Some c \<Rightarrow> c)
                | PoissonProb_266 \<Rightarrow> poissonProb_266_seq a1 a2 a3))"

section \<open>\<^verbatim>\<open>poissonScore\<close> (line 145)\<close>

text \<open>
  \<^verbatim>\<open>
  def poissonScore(events, rate):
      pp = poissonProb(events, events, rate, correctForSelection=True)
      if len(pp) == 0:
          return 1.0
      else:
          return ((1.0 / pp.min())**1.0) / (rate ** 0.5)
  \<close>
  \<^verbatim>\<open>rate ** 0.5\<close> on a negative Python 2 float raises \<open>ValueError\<close>; the two divisions have
  a float64 operand and follow numpy.
\<close>

definition py_sqrt :: "real \<Rightarrow> pyexc + real" where
  "py_sqrt x = (if x < 0 then Inl ValueError else Inr (sqrt x))"

definition poissonScore :: "globals \<Rightarrow> pyseq \<Rightarrow> real \<Rightarrow> pyexc + pyfloat" where
  "poissonScore g events rate =
     exc_bind (call_poissonProb g events events rate (Some True)) (\<lambda>pp.
       if length pp = 0 then Inr (Fin 1)
       else
         exc_bind (np_min pp) (\<lambda>m.
         exc_bind (py_sqrt rate) (\<lambda>s.
           Inr (fl_div (fl_div (Fin 1) m) (Fin s)))))"

section \<open>\<^verbatim>\<open>poissonIntegral\<close> (line 169)\<close>

text \<open>
  \<^verbatim>\<open>
  poissonIntCache = {}
  def poissonIntegral(events, rate, tMin, tMax, plot=False):
      global poissonIntCache
      xvals = np.linspace(tMin, tMax, 1000)
      dt = xvals[1]-xvals[0]
      tot = 0
      t = tMin
      nev = 0
      allprobs = []
      events = list(events)
      events.sort()
      events.append(tMax)
      for ev in events:
          if ev < tMin:
              continue
          if ev > tMax:
              ev = tMax
          i1 = int((t-tMin) / dt)
          i2 = int((ev-tMin) / dt)
          if nev not in poissonIntCache:
              poissonIntCache[nev] = np.array([1-stats.poisson(rate * x).cdf(nev) for x in xvals])
          probs = poissonIntCache[nev][i1:i2]
          tot += (1./probs).sum()
          allprobs.append(1./probs)
          t = ev
          nev += 1
          if ev == tMax:
              break
      ...
      return tot * dt
  \<close>
  The global dictionary is a state that the function takes and returns; it is returned
  also when the call raises, because the entries written before the exception stay. The
  plotting branch (\<open>plot\<close> defaults to \<open>False\<close>) is left out.
\<close>

type_synonym cache = "nat \<rightharpoonup> pyfloat list"

definition curve :: "real \<Rightarrow> real list \<Rightarrow> nat \<Rightarrow> pyfloat list" where
  "curve rate xvals nev = map (\<lambda>x. fl_sub (Fin 1) (poisson_cdf (real nev) (rate * x))) xvals"

fun poissonIntegral_loop ::
  "real \<Rightarrow> real \<Rightarrow> real \<Rightarrow> real list \<Rightarrow> real \<Rightarrow> real list
   \<Rightarrow> pyfloat \<Rightarrow> real \<Rightarrow> nat \<Rightarrow> cache \<Rightarrow> (pyexc + pyfloat) \<times> cache" where
  "poissonIntegral_loop rate tMin tMax xvals dt [] tot t nev c = (Inr tot, c)"
| "poissonIntegral_loop rate tMin tMax xvals dt (ev0 # evs) tot t nev c =
     (if ev0 < tMin then poissonIntegral_loop rate tMin tMax xvals dt evs tot t nev c
      else
        let ev = (if ev0 > tMax then tMax else ev0) in
        case py_int (fl_div (Fin (t - tMin)) (Fin dt)) of
          Inl e \<Rightarrow> (Inl e, c)
        | Inr i1 \<Rightarrow>
           (case py_int (fl_div (Fin (ev - tMin)) (Fin dt)) of
              Inl e \<Rightarrow> (Inl e, c)
            | Inr i2 \<Rightarrow>
               let c' = (case c nev of
                           None \<Rightarrow> c(nev \<mapsto> curve rate xvals nev)
                         | Some _ \<Rightarrow> c);
                   probs = py_slice (case c' nev of None \<Rightarrow> [] | Some p \<Rightarrow> p) i1 i2;
                   tot' = fl_add tot (np_sum (np_recip probs))
               in if ev = tMax then (Inr tot', c')
                  else poissonIntegral_loop rate tMin tMax xvals dt evs tot' ev (Suc nev) c'))"

definition poissonIntegral ::
  "cache \<Rightarrow> real list \<Rightarrow> real \<Rightarrow> real \<Rightarrow> real \<Rightarrow> (pyexc + pyfloat) \<times> cache" where
  "poissonIntegral c events rate tMin tMax =
     (let xvals = linspace tMin tMax 1000;
          dt = xvals ! 1 - xvals ! 0
      in case poissonIntegral_loop rate tMin tMax xvals dt (sort events @ [tMax])
                (Fin 0) tMin 0 c of
           (Inl e, c') \<Rightarrow> (Inl e, c')
         | (Inr tot, c') \<Rightarrow> (Inr (fl_mul tot (Fin dt)), c'))"

section \<open>\<^verbatim>\<open>poissonScoreBlame\<close> (line 204) and \<^verbatim>\<open>poissonIntegralBlame\<close> (line 220)\<close>

text \<open>
  \<^verbatim>\<open>
  def poissonScoreBlame(ev, rate):
      if len(ev) == 0:
          return []
      pp = []
      for i in range(len(ev)):
          ev2 = list(ev)
          ev2.pop(i)
          pp1 = 1. / poissonProb(ev, ev[i:], rate)
          pp2 = 1. / poissonProb(ev2, ev[i:], rate)
          pp.append((pp1 / pp2).max())
      ret = np.array(pp)
      assert not any(np.isnan(pp))
      return ret
  \<close>
\<close>

fun poissonScoreBlame_loop :: "globals \<Rightarrow> pyseq \<Rightarrow> real \<Rightarrow> nat list \<Rightarrow> pyexc + pyfloat list" where
  "poissonScoreBlame_loop g ev rate [] = Inr []"
| "poissonScoreBlame_loop g ev rate (i # is) =
     exc_bind (call_poissonProb g ev (seq_from i ev) rate None) (\<lambda>r1.
     exc_bind (call_poissonProb g (list_pop i ev) (seq_from i ev) rate None) (\<lambda>r2.
     exc_bind (np_broadcast fl_div (np_recip r1) (np_recip r2)) (\<lambda>q.
     exc_bind (np_max q) (\<lambda>m.
     exc_bind (poissonScoreBlame_loop g ev rate is) (\<lambda>rest.
       Inr (m # rest))))))"

definition poissonScoreBlame :: "globals \<Rightarrow> pyseq \<Rightarrow> real \<Rightarrow> pyexc + pyfloat list" where
  "poissonScoreBlame g ev rate =
     (if length (items ev) = 0 then Inr []
      else
        exc_bind (poissonScoreBlame_loop g ev rate [0..<length (items ev)]) (\<lambda>pp.
          if list_ex isnan pp then Inl AssertionError else Inr pp))"

text \<open>
  \<^verbatim>\<open>
  def poissonIntegralBlame(ev, rate, xMin, xMax):
      pp = []
      for i in range(len(ev)):
          ev2 = list(ev)
          ev2.pop(i)
          pp1 = poissonIntegral(ev, rate, xMin, xMax)
          pp2 = poissonIntegral(ev2, rate, xMin, xMax)
          pp.append(pp1 / pp2)
      ret = np.array(pp)
      assert not any(np.isnan(pp))
      return ret
  \<close>
\<close>

fun poissonIntegralBlame_loop ::
  "cache \<Rightarrow> real list \<Rightarrow> real \<Rightarrow> real \<Rightarrow> real \<Rightarrow> nat list \<Rightarrow> (pyexc + pyfloat list) \<times> cache" where
  "poissonIntegralBlame_loop c ev rate xMin xMax [] = (Inr [], c)"
| "poissonIntegralBlame_loop c ev rate xMin xMax (i # is) =
     (case poissonIntegral c ev rate xMin xMax of
        (Inl e, c1) \<Rightarrow> (Inl e, c1)
      | (Inr pp1, c1) \<Rightarrow>
         (case poissonIntegral c1 (take i ev @ drop (Suc i) ev) rate xMin xMax of
            (Inl e, c2) \<Rightarrow> (Inl e, c2)
          | (Inr pp2, c2) \<Rightarrow>
             (case poissonIntegralBlame_loop c2 ev rate xMin xMax is of
                (Inl e, c3) \<Rightarrow> (Inl e, c3)
              | (Inr rest, c3) \<Rightarrow> (Inr (fl_div pp1 pp2 # rest), c3))))"

definition poissonIntegralBlame ::
  "cache \<Rightarrow> real list \<Rightarrow> real \<Rightarrow> real \<Rightarrow> real \<Rightarrow> (pyexc + pyfloat list) \<times> cache" where
  "poissonIntegralBlame c ev rate xMin xMax =
     (case poissonIntegralBlame_loop c ev rate xMin xMax [0..<length ev] of
        (Inl e, c') \<Rightarrow> (Inl e, c')
      | (Inr pp, c') \<Rightarrow> if list_ex isnan pp then (Inl AssertionError, c') else (Inr pp, c'))"

section \<open>The quantities named by the specification\<close>

text \<open>
  For a Poisson variable of mean \<open>mu\<close>: the probability that it is at least \<open>i\<close>, which is
  \<open>1 - CDF(i - 1; mu)\<close>, and the probability that it is more than \<open>i\<close>, which is
  \<open>1 - CDF(i; mu)\<close>.
\<close>

definition prob_at_least :: "nat \<Rightarrow> real \<Rightarrow> real" where
  "prob_at_least i mu = (if i = 0 then 1 else 1 - exp (- mu) * exp_series (i - 1) mu)"

definition prob_more_than :: "nat \<Rightarrow> real \<Rightarrow> real" where
  "prob_more_than i mu = 1 - exp (- mu) * exp_series i mu"

text \<open>
  The specification of the score (section 4.2): for the prefix that ends at the \<open>i\<close>-th
  event, counted from one, a probability \<open>P i\<close> under the mean of the window \<open>[0, t\<^sub>i]\<close>
  lengthened by the selection correction \<open>1 / rate\<close>; the score is the inverse of the
  smallest of these, divided by \<open>sqrt rate\<close>, and \<open>1\<close> for no event.
\<close>

definition window_probs :: "(nat \<Rightarrow> real \<Rightarrow> real) \<Rightarrow> real \<Rightarrow> real list \<Rightarrow> real list" where
  "window_probs P rate ts = map (\<lambda>i. P (Suc i) (rate * (ts ! i + 1 / rate))) [0..<length ts]"

definition score_formula :: "(nat \<Rightarrow> real \<Rightarrow> real) \<Rightarrow> real \<Rightarrow> real list \<Rightarrow> real" where
  "score_formula P rate ts =
     (if ts = [] then 1 else (1 / Min (set (window_probs P rate ts))) / sqrt rate)"

text \<open>
  The specification of \<open>windowedExceedanceProbability\<close> (section 4.1): for each window end
  \<open>x\<close>, one minus the distribution function at the number of events at or before \<open>x\<close>.
\<close>

definition count_at_or_before :: "real list \<Rightarrow> real \<Rightarrow> nat" where
  "count_at_or_before events x = length (filter (\<lambda>t. t \<le> x) events)"

definition windowedExceedanceProbability_spec ::
  "real list \<Rightarrow> real list \<Rightarrow> real \<Rightarrow> bool \<Rightarrow> pyfloat list" where
  "windowedExceedanceProbability_spec events xvals rate correctForSelection =
     map (\<lambda>x. fl_sub (Fin 1)
                (poisson_cdf (real (count_at_or_before events x))
                   (rate * (x + (if correctForSelection then 1 / rate else 0)))))
         xvals"

section \<open>The cache after a lookup\<close>

text \<open>
  Two abbreviations for the statements about \<open>poissonIntegral\<close>: the curve that the loop
  reads for the count \<open>nev\<close> (the cached one if there is one, a new one for the current rate
  and grid otherwise), and the cache after that lookup.
\<close>

definition cached_curve :: "cache \<Rightarrow> real \<Rightarrow> real list \<Rightarrow> nat \<Rightarrow> pyfloat list" where
  "cached_curve c rate xvals nev = (case c nev of None \<Rightarrow> curve rate xvals nev | Some p \<Rightarrow> p)"

definition cache_with :: "cache \<Rightarrow> real \<Rightarrow> real list \<Rightarrow> nat \<Rightarrow> cache" where
  "cache_with c rate xvals nev =
     (case c nev of None \<Rightarrow> c(nev \<mapsto> curve rate xvals nev) | Some _ \<Rightarrow> c)"

text \<open>
  Two properties used to show that the integral is well defined: an array whose entries
  are all finite and positive, and a cache whose curves are those of one rate and grid.
\<close>

definition pos_fin :: "pyfloat list \<Rightarrow> bool" where
  "pos_fin xs = (\<forall>x\<in>set xs. \<exists>p. x = Fin p \<and> 0 < p)"

definition cache_ok :: "real \<Rightarrow> real list \<Rightarrow> cache \<Rightarrow> bool" where
  "cache_ok rate xvals c = (\<forall>k p. c k = Some p \<longrightarrow> p = curve rate xvals k)"

section \<open>Facts about the Poisson distribution function\<close>

lemma exp_series_nonneg: "0 \<le> mu \<Longrightarrow> 0 \<le> exp_series k mu"
  by (induction k) simp_all

lemma exp_series_pos: "0 \<le> mu \<Longrightarrow> 0 < exp_series k mu"
  by (induction k) (simp_all add: add_pos_nonneg)

lemma exp_series_mono: "0 \<le> mu \<Longrightarrow> j \<le> k \<Longrightarrow> exp_series j mu \<le> exp_series k mu"
proof (induction k)
  case 0
  then show ?case by simp
next
  case (Suc k)
  show ?case
  proof (cases "j = Suc k")
    case True
    then show ?thesis by simp
  next
    case False
    with Suc.prems have "j \<le> k" by simp
    with Suc have "exp_series j mu \<le> exp_series k mu" by simp
    moreover have "0 \<le> mu ^ Suc k / fact (Suc k)" using Suc.prems(1) by simp
    ultimately show ?thesis by simp
  qed
qed

lemma pow_fact_deriv:
  "((\<lambda>x::real. x ^ Suc n / fact (Suc n)) has_real_derivative mu ^ n / fact n) (at mu)"
proof -
  have eq: "real (Suc n) * mu ^ n / fact (Suc n) = mu ^ n / fact n"
    by simp
  have "((\<lambda>x. x ^ Suc n) has_real_derivative real (Suc n) * mu ^ n) (at mu)"
    using DERIV_pow[of "Suc n" mu] by simp
  from DERIV_cdivide[OF this, of "fact (Suc n)"] show ?thesis
    unfolding eq .
qed

lemma exp_series_deriv:
  "((\<lambda>x. exp_series (Suc k) x) has_real_derivative exp_series k mu) (at mu)"
proof (induction k)
  case 0
  show ?case by (auto intro!: derivative_eq_intros)
next
  case (Suc k)
  from DERIV_add[OF Suc pow_fact_deriv[of "Suc k" mu]] show ?case by simp
qed

lemma cdf_core_deriv:
  "((\<lambda>x. exp (- x) * exp_series k x) has_real_derivative
      - (exp (- mu) * mu ^ k / fact k)) (at mu)"
proof (cases k)
  case 0
  then show ?thesis by (auto intro!: derivative_eq_intros)
next
  case (Suc j)
  have "((\<lambda>x. exp (- x) * exp_series (Suc j) x) has_real_derivative
          (- exp (- mu)) * exp_series (Suc j) mu + exp (- mu) * exp_series j mu) (at mu)"
    by (rule derivative_eq_intros exp_series_deriv | simp)+
  then show ?thesis using Suc by (simp add: algebra_simps)
qed

lemma cdf_core_antimono:
  assumes "0 \<le> a" "a \<le> b"
  shows "exp (- b) * exp_series k b \<le> exp (- a) * exp_series k a"
proof (rule DERIV_nonpos_imp_nonincreasing[OF assms(2)])
  fix x assume "a \<le> x" "x \<le> b"
  then have "0 \<le> x" using assms by simp
  then have "- (exp (- x) * x ^ k / fact k) \<le> 0" by simp
  then show "\<exists>y. ((\<lambda>x. exp (- x) * exp_series k x) has_real_derivative y) (at x) \<and> y \<le> 0"
    using cdf_core_deriv by blast
qed

lemma exp_series_sum: "exp_series k mu = (\<Sum>j<Suc k. mu ^ j / fact j)"
  by (induction k) simp_all

lemma exp_series_less_exp:
  assumes "0 < mu"
  shows "exp_series k mu < exp mu"
proof -
  have s: "summable (\<lambda>j. mu ^ j / fact j)"
    using summable_exp[of mu] by (simp add: field_simps)
  have "(\<Sum>j<Suc k. mu ^ j / fact j) < (\<Sum>j. mu ^ j / fact j)"
    by (rule sum_less_suminf[OF s]) (use assms in simp)
  also have "\<dots> = exp mu"
    by (simp add: exp_def field_simps)
  finally show ?thesis by (simp only: exp_series_sum)
qed

lemma cdf_core_less_one: "0 < mu \<Longrightarrow> exp (- mu) * exp_series k mu < 1"
  using exp_series_less_exp[of mu k] by (simp add: exp_minus field_simps)

lemma cdf_core_pos: "0 \<le> mu \<Longrightarrow> 0 < exp (- mu) * exp_series k mu"
  by (simp add: exp_series_pos)


section \<open>Calls of \<^verbatim>\<open>poissonProb\<close> before and after the rebinding\<close>

lemma globals_at_early: "121 \<le> l \<Longrightarrow> l < 266 \<Longrightarrow> globals_at l ''poissonProb'' = Some PoissonProb_121"
  by (simp add: globals_at_def module_defs_def)

lemma globals_at_late: "266 \<le> l \<Longrightarrow> globals_at l ''poissonProb'' = Some PoissonProb_266"
  by (simp add: globals_at_def module_defs_def)

lemma binds_266_keyword: "\<not> binds PoissonProb_266 3 [''correctForSelection'']"
  by (simp add: binds_def)

lemma binds_266_positional: "binds PoissonProb_266 3 []"
  by (simp add: binds_def)

lemma binds_121_keyword: "binds PoissonProb_121 3 [''correctForSelection'']"
  by (simp add: binds_def)

lemma binds_121_positional: "binds PoissonProb_121 3 []"
  by (simp add: binds_def)

lemma call_late_keyword:
  "266 \<le> l \<Longrightarrow> call_poissonProb (globals_at l) a1 a2 a3 (Some c) = Inl TypeError"
  by (simp add: call_poissonProb_def globals_at_late binds_266_keyword)

lemma call_late_positional:
  "266 \<le> l \<Longrightarrow> call_poissonProb (globals_at l) a1 a2 a3 None = poissonProb_266_seq a1 a2 a3"
  by (simp add: call_poissonProb_def globals_at_late binds_266_positional)

lemma call_early:
  "121 \<le> l \<Longrightarrow> l < 266 \<Longrightarrow>
   call_poissonProb (globals_at l) a1 a2 a3 kw
     = poissonProb_121 a1 a2 a3 (case kw of None \<Rightarrow> False | Some c \<Rightarrow> c)"
  by (cases kw) (simp_all add: call_poissonProb_def globals_at_early binds_121_keyword binds_121_positional)

lemma blame_loop_late:
  assumes "266 \<le> l"
  shows "poissonScoreBlame_loop (globals_at l) ev rate (0 # js) = Inl TypeError"
proof (cases ev)
  case (PyList xs)
  then show ?thesis
    by (simp add: call_late_positional[OF assms] poissonProb_266_seq_def exc_bind_def)
next
  case (NdArray xs)
  then show ?thesis
    by (simp add: call_late_positional[OF assms] poissonProb_266_seq_def exc_bind_def
        list_pop_def np_broadcast_def)
qed


section \<open>The value of the first \<^verbatim>\<open>poissonProb\<close> and of the score\<close>

lemma poisson_cdf_nat:
  "0 \<le> mu \<Longrightarrow> poisson_cdf (real n) mu = Fin (exp (- mu) * exp_series n mu)"
  by (simp add: poisson_cdf_def)

lemma poissonProb_121_loop_eq:
  assumes "\<not> (correctForSelection \<and> rate = 0)"
  shows "poissonProb_121_loop i xs rate correctForSelection =
         Inr (map (\<lambda>j. poisson_cdf (real (i + j + 1))
                        (rate * (xs ! j + (if correctForSelection then 1 / rate else 0))))
                  [0..<length xs])"
proof (induction xs arbitrary: i)
  case Nil
  then show ?case by simp
next
  case (Cons x xs)
  show ?case
    using assms
    by (simp add: Cons.IH exc_bind_def Let_def map_upt_Suc del: upt_Suc)
qed

lemma prob_more_than_pos: "0 < mu \<Longrightarrow> 0 < prob_more_than i mu"
  using cdf_core_less_one[of mu i] by (simp add: prob_more_than_def)

lemma prob_more_than_Suc: "0 < mu \<Longrightarrow> prob_more_than (Suc i) mu < prob_more_than i mu"
  by (simp add: prob_more_than_def)

lemma poissonProb_121_with_correction:
  assumes "0 < rate" "\<forall>t\<in>set (items xvals). 0 \<le> t"
  shows "poissonProb_121 events xvals rate True
         = Inr (map Fin (window_probs prob_more_than rate (items xvals)))"
proof -
  have "poisson_cdf (real (j + 1)) (rate * (items xvals ! j + 1 / rate))
        = Fin (exp (- (rate * (items xvals ! j + 1 / rate)))
               * exp_series (Suc j) (rate * (items xvals ! j + 1 / rate)))"
    if "j < length (items xvals)" for j
  proof -
    have "0 \<le> items xvals ! j" using assms(2) that by simp
    then have "0 \<le> rate * (items xvals ! j + 1 / rate)" using assms(1) by simp
    from poisson_cdf_nat[OF this, of "j + 1"] show ?thesis by simp
  qed
  then show ?thesis
    using assms(1)
    by (simp add: poissonProb_121_def poissonProb_121_loop_eq exc_bind_def np_one_minus_def
        window_probs_def prob_more_than_def fl_sub_def)
qed

lemma foldl_fl_min_Fin: "foldl fl_min (Fin x) (map Fin xs) = Fin (fold min xs x)"
  by (induction xs arbitrary: x) (simp_all add: fl_min_def isnan_def min_def)

lemma np_min_Fin: "xs \<noteq> [] \<Longrightarrow> np_min (map Fin xs) = Inr (Fin (Min (set xs)))"
proof (cases xs)
  case Nil
  assume "xs \<noteq> []"
  with Nil show ?thesis by simp
next
  case (Cons a list)
  have "Min (set (a # list)) = fold min list a" by (rule Min.set_eq_fold)
  then show ?thesis using Cons by (simp add: foldl_fl_min_Fin)
qed

lemma window_probs_pos:
  assumes "0 < rate" "\<forall>t\<in>set ts. 0 \<le> t" "p \<in> set (window_probs prob_more_than rate ts)"
  shows "0 < p"
proof -
  from assms(3) obtain i where i: "i < length ts"
    and p: "p = prob_more_than (Suc i) (rate * (ts ! i + 1 / rate))"
    by (auto simp: window_probs_def)
  have "0 \<le> ts ! i" using assms(2) i by simp
  then have "0 < rate * (ts ! i + 1 / rate)" using assms(1)
    by (simp add: add_nonneg_pos)
  then show ?thesis unfolding p by (rule prob_more_than_pos)
qed

lemma poissonScore_121_formula:
  assumes "121 \<le> l" "l < 266" "0 < rate" "\<forall>t\<in>set (items events). 0 \<le> t"
  shows "poissonScore (globals_at l) events rate
         = Inr (Fin (score_formula prob_more_than rate (items events)))"
proof (cases "items events = []")
  case True
  then show ?thesis
    using assms
    by (simp add: poissonScore_def call_early poissonProb_121_with_correction exc_bind_def
        score_formula_def window_probs_def)
next
  case False
  define ps where "ps = window_probs prob_more_than rate (items events)"
  define mn where "mn = Min (set ps)"
  have ne: "ps \<noteq> []" using False by (simp add: ps_def window_probs_def)
  then have "mn \<in> set ps" unfolding mn_def by simp
  then have m: "0 < mn" using window_probs_pos[OF assms(3,4)] unfolding ps_def by blast
  have pp: "call_poissonProb (globals_at l) events events rate (Some True) = Inr (map Fin ps)"
    using assms by (simp add: call_early poissonProb_121_with_correction ps_def)
  have mi: "np_min (map Fin ps) = Inr (Fin mn)"
    using ne by (simp add: np_min_Fin mn_def)
  have d: "fl_div (fl_div (Fin 1) (Fin mn)) (Fin (sqrt rate)) = Fin (1 / mn / sqrt rate)"
    using m assms(3) by simp
  have "poissonScore (globals_at l) events rate = Inr (Fin (1 / mn / sqrt rate))"
    using ne assms(3) m by (simp add: poissonScore_def pp mi exc_bind_def py_sqrt_def)
  moreover have "score_formula prob_more_than rate (items events) = 1 / mn / sqrt rate"
    using False by (simp add: score_formula_def mn_def ps_def)
  ultimately show ?thesis by simp
qed


lemma Min_less_Min:
  fixes ps qs :: "real list"
  assumes "ps \<noteq> []" "\<forall>p\<in>set ps. \<exists>q\<in>set qs. q < p"
  shows "Min (set qs) < Min (set ps)"
proof -
  have "Min (set ps) \<in> set ps" using assms(1) by simp
  with assms(2) obtain q where q: "q \<in> set qs" "q < Min (set ps)" by blast
  then have "Min (set qs) \<le> q" by simp
  then show ?thesis using q(2) by (rule le_less_trans)
qed


section \<open>The integral on degenerate inputs and on no events\<close>

lemma linspace_length: "length (linspace a b n) = n"
  by (simp add: linspace_def)

lemma linspace_nth: "j < n \<Longrightarrow> linspace a b n ! j = a + real j * ((b - a) / real (n - 1))"
  by (simp add: linspace_def)

lemma linspace_dt: "linspace a b 1000 ! Suc 0 - linspace a b 1000 ! 0 = (b - a) / 999"
  by (simp add: linspace_nth)

lemma linspace_dt1: "linspace a b 1000 ! 1 - linspace a b 1000 ! 0 = (b - a) / 999"
  by (simp add: linspace_nth)

lemma poissonIntegral_unfold:
  "poissonIntegral c events rate tMin tMax =
     (case poissonIntegral_loop rate tMin tMax (linspace tMin tMax 1000) ((tMax - tMin) / 999)
             (sort events @ [tMax]) (Fin 0) tMin 0 c of
        (Inl e, c') \<Rightarrow> (Inl e, c')
      | (Inr tot, c') \<Rightarrow> (Inr (fl_mul tot (Fin ((tMax - tMin) / 999))), c'))"
  unfolding poissonIntegral_def Let_def linspace_dt1 ..

lemma loop_skip:
  "\<forall>e\<in>set evs. e < tMin \<Longrightarrow>
   poissonIntegral_loop rate tMin tMax xvals dt evs tot t nev c = (Inr tot, c)"
  by (induction evs) simp_all

lemma loop_zero_dt:
  assumes "\<exists>e\<in>set evs. \<not> e < tMin"
  shows "poissonIntegral_loop rate tMin tMax xvals 0 evs tot tMin nev c = (Inl ValueError, c)"
  using assms
proof (induction evs)
  case Nil
  then show ?case by simp
next
  case (Cons e evs)
  show ?case
  proof (cases "e < tMin")
    case True
    with Cons show ?thesis by simp
  next
    case False
    then show ?thesis by (simp add: fl_inf_def)
  qed
qed

lemma poissonIntegral_equal_bounds:
  "poissonIntegral c events rate tMin tMin = (Inl ValueError, c)"
proof -
  have "\<exists>e\<in>set (sort events @ [tMin]). \<not> e < tMin" by simp
  from loop_zero_dt[OF this] show ?thesis
    by (simp add: poissonIntegral_unfold del: set_append)
qed

lemma poissonIntegral_reversed_no_events:
  assumes "tMax < tMin" "\<forall>e\<in>set events. e < tMin"
  shows "poissonIntegral c events rate tMin tMax = (Inr (Fin 0), c)"
proof -
  have "\<forall>e\<in>set (sort events @ [tMax]). e < tMin" using assms by simp
  from loop_skip[OF this] show ?thesis
    by (simp add: poissonIntegral_unfold del: set_append)
qed

lemma loop_reversed:
  assumes "tMax < tMin" "dt = (tMax - tMin) / 999"
  shows "\<exists>v c'. poissonIntegral_loop rate tMin tMax xvals dt evs tot tMin nev c = (Inr v, c')"
proof (induction evs)
  case Nil
  then show ?case by simp
next
  case (Cons e evs)
  show ?case
  proof (cases "e < tMin")
    case True
    with Cons show ?thesis by simp
  next
    case False
    then have "tMax < e" using assms(1) by simp
    moreover have "dt \<noteq> 0" using assms by simp
    ultimately show ?thesis using False
      by (simp add: Let_def split: option.split)
  qed
qed

lemma poissonIntegral_reversed_returns:
  assumes "tMax < tMin"
  shows "\<exists>v c'. poissonIntegral c events rate tMin tMax = (Inr v, c')"
proof -
  obtain v c' where
    "poissonIntegral_loop rate tMin tMax (linspace tMin tMax 1000) ((tMax - tMin) / 999)
       (sort events @ [tMax]) (Fin 0) tMin 0 c = (Inr v, c')"
    using loop_reversed[OF assms refl] by blast
  then show ?thesis
    by (simp add: poissonIntegral_unfold)
qed


lemma fl_add_zero_left: "fl_add (Fin 0) x = x"
  by (cases x) simp_all

lemma curve_length: "length (curve rate xvals nev) = length xvals"
  by (simp add: curve_def)

lemma poissonIntegral_no_events:
  assumes "tMin < tMax"
  shows "poissonIntegral c [] rate tMin tMax =
         (Inr (fl_mul (np_sum (np_recip
                 (py_slice (cached_curve c rate (linspace tMin tMax 1000) 0) 0 999)))
               (Fin ((tMax - tMin) / 999))),
          cache_with c rate (linspace tMin tMax 1000) 0)"
proof -
  have d: "(tMax * 999 - tMin * 999) / (tMax - tMin) = 999"
    using assms by (simp add: divide_eq_eq algebra_simps)
  show ?thesis
    using assms
    by (cases "c 0")
       (simp_all add: poissonIntegral_unfold Let_def d fl_add_zero_left
          cached_curve_def cache_with_def)
qed

lemma np_sum_NaN: "NaN \<in> set xs \<Longrightarrow> np_sum xs = NaN"
proof (induction xs)
  case Nil
  then show ?case by simp
next
  case (Cons x xs)
  show ?case
  proof (cases "x = NaN")
    case True
    then show ?thesis by (simp add: np_sum_def)
  next
    case False
    with Cons have "np_sum xs = NaN" by simp
    then show ?thesis by (cases x) (simp_all add: np_sum_def)
  qed
qed

lemma np_sum_PInf: "xs \<noteq> [] \<Longrightarrow> \<forall>x\<in>set xs. x = PInf \<Longrightarrow> np_sum xs = PInf"
proof (induction xs)
  case Nil
  then show ?case by simp
next
  case (Cons x xs)
  show ?case
  proof (cases "xs = []")
    case True
    with Cons.prems show ?thesis by (simp add: np_sum_def)
  next
    case False
    with Cons have "np_sum xs = PInf" by simp
    with Cons.prems show ?thesis by (simp add: np_sum_def)
  qed
qed

lemma np_sum_Fin: "np_sum (map Fin ys) = Fin (sum_list ys)"
  by (induction ys) (simp_all add: np_sum_def)

lemma py_slice_take: "length xs = 1000 \<Longrightarrow> py_slice xs 0 999 = take 999 xs"
  by (simp add: py_slice_def slice_index_def)

lemma poissonIntegral_negative_rate:
  assumes "rate < 0" "0 \<le> tMin" "tMin < tMax"
  shows "poissonIntegral Map.empty [] rate tMin tMax
         = (Inr NaN, [0 \<mapsto> curve rate (linspace tMin tMax 1000) 0])"
proof -
  let ?xs = "linspace tMin tMax 1000"
  let ?crv = "curve rate ?xs 0"
  have "0 < tMin + (tMax - tMin) / 999" using assms by (simp add: add_nonneg_pos)
  then have x1: "0 < ?xs ! 1" by (simp add: linspace_nth)
  then have "rate * (?xs ! 1) < 0" using assms(1) by (simp add: mult_neg_pos)
  then have "?crv ! 1 = NaN"
    by (simp add: curve_def linspace_length poisson_cdf_def fl_sub_def)
  moreover have "take 999 ?crv ! 1 = ?crv ! 1" by simp
  moreover have "1 < length (take 999 ?crv)" by (simp add: curve_length linspace_length)
  ultimately have "NaN \<in> set (take 999 ?crv)" by (metis nth_mem)
  then have "NaN \<in> set (np_recip (take 999 ?crv))"
    by (force simp: np_recip_def)
  then have "np_sum (np_recip (take 999 ?crv)) = NaN" by (rule np_sum_NaN)
  then show ?thesis
    using assms(3)
    by (simp add: poissonIntegral_no_events cached_curve_def cache_with_def py_slice_take
        curve_length linspace_length)
qed

lemma poissonIntegral_zero_rate:
  assumes "tMin < tMax"
  shows "poissonIntegral Map.empty [] 0 tMin tMax
         = (Inr PInf, [0 \<mapsto> curve 0 (linspace tMin tMax 1000) 0])"
proof -
  let ?xs = "linspace tMin tMax 1000"
  let ?crv = "curve 0 ?xs 0"
  have "np_recip (take 999 ?crv) = replicate 999 PInf"
    by (simp add: np_recip_def curve_def poisson_cdf_def fl_sub_def fl_inf_def take_map
        map_replicate_const linspace_length)
  then have "np_sum (np_recip (take 999 ?crv)) = PInf"
    by (simp add: np_sum_PInf)
  then show ?thesis
    using assms
    by (simp add: poissonIntegral_no_events cached_curve_def cache_with_def py_slice_take
        curve_length linspace_length fl_inf_def)
qed


lemma linspace_ge: "a \<le> b \<Longrightarrow> x \<in> set (linspace a b 1000) \<Longrightarrow> a \<le> x"
  by (auto simp: linspace_def)

lemma recip_curve_zero:
  assumes "0 < rate" "\<forall>x\<in>set xs. 0 < x"
  shows "np_recip (curve rate xs 0) = map (\<lambda>x. Fin (1 / (1 - exp (- (rate * x))))) xs"
proof -
  have "fl_div (Fin 1) (fl_sub (Fin 1) (poisson_cdf (real 0) (rate * x)))
        = Fin (1 / (1 - exp (- (rate * x))))" if "x \<in> set xs" for x
  proof -
    have x: "0 < x" using assms(2) that by simp
    then have "\<not> rate * x < 0" using assms(1) by (simp add: not_less)
    then show ?thesis using assms(1) x by (simp add: poisson_cdf_def fl_sub_def)
  qed
  then show ?thesis by (simp add: np_recip_def curve_def)
qed

lemma poissonIntegral_fresh:
  assumes "0 < rate" "0 < tMin" "tMin < tMax"
  shows "poissonIntegral Map.empty [] rate tMin tMax
         = (Inr (Fin (sum_list (map (\<lambda>x. 1 / (1 - exp (- (rate * x))))
                                    (take 999 (linspace tMin tMax 1000)))
                      * ((tMax - tMin) / 999))),
            [0 \<mapsto> curve rate (linspace tMin tMax 1000) 0])"
proof -
  let ?xs = "linspace tMin tMax 1000"
  have pos: "\<forall>x\<in>set ?xs. 0 < x"
    using linspace_ge[of tMin tMax] assms by fastforce
  have "np_recip (take 999 (curve rate ?xs 0))
        = take 999 (np_recip (curve rate ?xs 0))"
    by (simp add: np_recip_def take_map)
  also have "\<dots> = map Fin (map (\<lambda>x. 1 / (1 - exp (- (rate * x)))) (take 999 ?xs))"
    by (simp add: recip_curve_zero[OF assms(1) pos] take_map)
  finally have "np_sum (np_recip (take 999 (curve rate ?xs 0)))
        = Fin (sum_list (map (\<lambda>x. 1 / (1 - exp (- (rate * x)))) (take 999 ?xs)))"
    by (simp only: np_sum_Fin)
  then show ?thesis
    using assms(3)
    by (simp add: poissonIntegral_no_events cached_curve_def cache_with_def py_slice_take
        curve_length linspace_length)
qed

lemma poissonIntegral_cached:
  assumes "tMin < tMax" "c 0 = Some p" "poissonIntegral Map.empty [] r1 tMin tMax = (v, c)"
  shows "poissonIntegral c [] r2 tMin tMax = (v, c)"
proof -
  have "c = [0 \<mapsto> curve r1 (linspace tMin tMax 1000) 0]"
    using assms(1,3) by (simp add: poissonIntegral_no_events cache_with_def)
  then show ?thesis
    using assms(1,3)
    by (simp add: poissonIntegral_no_events cache_with_def cached_curve_def)
qed

lemma poissonScore_empty:
  assumes "121 \<le> l" "l < 266" "items events = []"
  shows "poissonScore (globals_at l) events rate = Inr (Fin 1)"
  using assms
  by (simp add: poissonScore_def call_early poissonProb_121_def exc_bind_def np_one_minus_def)

section \<open>The integral on a valid window\<close>

text \<open>
  For a positive rate, a window \<open>0 < tMin < tMax\<close> and a cache that holds only curves of this
  rate and window, \<open>poissonIntegral\<close> raises nothing and returns a finite positive value, and
  \<open>poissonIntegralBlame\<close> returns one finite positive ratio for each event.
\<close>

lemma loop_first_beyond:
  assumes "tMin < tMax" "tMax \<le> e"
  shows "poissonIntegral_loop rate tMin tMax xvals ((tMax - tMin) / 999) (e # rest)
           (Fin 0) tMin 0 c
         = (Inr (np_sum (np_recip (py_slice (cached_curve c rate xvals 0) 0 999))),
            cache_with c rate xvals 0)"
proof -
  have d: "(tMax * 999 - tMin * 999) / (tMax - tMin) = 999"
    using assms(1) by (simp add: divide_eq_eq algebra_simps)
  show ?thesis
    using assms
    by (cases "c 0")
       (simp_all add: Let_def d fl_add_zero_left cached_curve_def cache_with_def)
qed

lemma poissonIntegral_beyond:
  assumes "tMin < tMax" "\<forall>e\<in>set events. tMax \<le> e"
  shows "poissonIntegral c events rate tMin tMax =
         (Inr (fl_mul (np_sum (np_recip
                 (py_slice (cached_curve c rate (linspace tMin tMax 1000) 0) 0 999)))
               (Fin ((tMax - tMin) / 999))),
          cache_with c rate (linspace tMin tMax 1000) 0)"
proof -
  obtain e rest where er: "sort events @ [tMax] = e # rest" "tMax \<le> e"
  proof (cases "sort events")
    case Nil
    then show ?thesis using that[of tMax "[]"] by simp
  next
    case (Cons a as)
    then have "a \<in> set (sort events)" by simp
    then have "tMax \<le> a" using assms(2) by simp
    then show ?thesis using that[of a "as @ [tMax]"] Cons by simp
  qed
  show ?thesis
    unfolding poissonIntegral_unfold er(1)
    by (simp add: loop_first_beyond[OF assms(1) er(2)] del: poissonIntegral_loop.simps)
qed


lemma curve_pos:
  assumes "0 < rate" "\<forall>x\<in>set xvals. 0 < x"
  shows "pos_fin (curve rate xvals k)"
proof -
  have "\<exists>p. fl_sub (Fin 1) (poisson_cdf (real k) (rate * x)) = Fin p \<and> 0 < p"
    if "x \<in> set xvals" for x
  proof -
    have mu: "0 < rate * x" using assms that by simp
    then have "poisson_cdf (real k) (rate * x) = Fin (exp (- (rate * x)) * exp_series k (rate * x))"
      by (simp add: poisson_cdf_nat)
    moreover have "exp (- (rate * x)) * exp_series k (rate * x) < 1"
      using mu by (rule cdf_core_less_one)
    ultimately show ?thesis by (simp add: fl_sub_def)
  qed
  then show ?thesis by (auto simp: pos_fin_def curve_def)
qed

lemma pos_fin_slice: "pos_fin xs \<Longrightarrow> pos_fin (py_slice xs i j)"
  by (auto simp: pos_fin_def py_slice_def Let_def dest!: in_set_takeD in_set_dropD)

lemma sum_recip_pos:
  assumes "pos_fin xs"
  shows "\<exists>s. np_sum (np_recip xs) = Fin s \<and> 0 \<le> s \<and> (xs \<noteq> [] \<longrightarrow> 0 < s)"
  using assms
proof (induction xs)
  case Nil
  then show ?case by (simp add: np_sum_def np_recip_def)
next
  case (Cons x xs)
  from Cons.prems obtain p where p: "x = Fin p" "0 < p" by (auto simp: pos_fin_def)
  from Cons.prems have "pos_fin xs" by (simp add: pos_fin_def)
  with Cons.IH obtain s where s: "np_sum (np_recip xs) = Fin s" "0 \<le> s" by blast
  have "np_sum (np_recip (x # xs)) = Fin (1 / p + s)"
    using p s by (simp add: np_sum_def np_recip_def)
  moreover have "0 < 1 / p + s" using p(2) s(2) by (simp add: add_pos_nonneg)
  ultimately show ?case by simp
qed

lemma cache_with_ok: "cache_ok rate xvals c \<Longrightarrow> cache_ok rate xvals (cache_with c rate xvals k)"
  by (auto simp: cache_ok_def cache_with_def split: option.splits)

lemma cache_with_lookup:
  "cache_ok rate xvals c \<Longrightarrow>
   (case cache_with c rate xvals k k of None \<Rightarrow> [] | Some p \<Rightarrow> p) = curve rate xvals k"
  by (auto simp: cache_ok_def cache_with_def split: option.splits)

lemma py_slice_nonempty:
  assumes "0 \<le> i" "i < 999" "length xs = 1000"
  shows "py_slice xs i 999 \<noteq> []"
proof -
  have "nat i < 999" using assms by simp
  then show ?thesis using assms by (simp add: py_slice_def slice_index_def Let_def)
qed

lemma loop_step:
  assumes "\<not> e < tMin" "dt \<noteq> 0" "0 \<le> (t - tMin) / dt"
    "0 \<le> ((if e > tMax then tMax else e) - tMin) / dt"
  shows "poissonIntegral_loop rate tMin tMax xvals dt (e # evs) tot t nev c =
     (let ev = (if e > tMax then tMax else e);
          c' = cache_with c rate xvals nev;
          probs = py_slice (case c' nev of None \<Rightarrow> [] | Some p \<Rightarrow> p)
                    \<lfloor>(t - tMin) / dt\<rfloor> \<lfloor>(ev - tMin) / dt\<rfloor>;
          tot' = fl_add tot (np_sum (np_recip probs))
      in if ev = tMax then (Inr tot', c')
         else poissonIntegral_loop rate tMin tMax xvals dt evs tot' ev (Suc nev) c')"
proof -
  have a: "py_int (fl_div (Fin (t - tMin)) (Fin dt)) = Inr \<lfloor>(t - tMin) / dt\<rfloor>"
    using assms(2,3) by simp
  have b: "py_int (fl_div (Fin ((if e > tMax then tMax else e) - tMin)) (Fin dt))
           = Inr \<lfloor>((if e > tMax then tMax else e) - tMin) / dt\<rfloor>"
    using assms(2,4) by (cases "tMax < e") simp_all
  show ?thesis
    by (subst poissonIntegral_loop.simps)
       (simp only: a b Let_def cache_with_def assms(1) if_False sum.case)
qed

lemma loop_pos:
  assumes "0 < rate" "0 < tMin" "tMin < tMax"
    and xv: "xvals = linspace tMin tMax 1000" and dt: "dt = (tMax - tMin) / 999"
  shows "cache_ok rate xvals c \<Longrightarrow> tMin \<le> t \<Longrightarrow> t < tMax \<Longrightarrow> 0 \<le> s
         \<Longrightarrow> \<exists>e\<in>set evs. tMax \<le> e
         \<Longrightarrow> \<exists>r c'. poissonIntegral_loop rate tMin tMax xvals dt evs (Fin s) t nev c
                      = (Inr (Fin r), c') \<and> 0 < r \<and> cache_ok rate xvals c'"
proof (induction evs arbitrary: s t nev c)
  case Nil
  then show ?case by simp
next
  case (Cons e evs)
  have dt0: "0 < dt" using assms(3) dt by simp
  then have dtne: "dt \<noteq> 0" by simp
  have xpos: "\<forall>x\<in>set xvals. 0 < x"
    using linspace_ge[of tMin tMax] assms(2,3) xv by fastforce
  show ?case
  proof (cases "e < tMin")
    case True
    then have "\<exists>e\<in>set evs. tMax \<le> e" using Cons.prems(5) assms(3) by auto
    from Cons.IH[OF Cons.prems(1-4) this] True show ?thesis by simp
  next
    case False
    let ?ev = "if e > tMax then tMax else e"
    let ?c' = "cache_with c rate xvals nev"
    let ?probs = "py_slice (curve rate xvals nev) \<lfloor>(t - tMin) / dt\<rfloor> \<lfloor>(?ev - tMin) / dt\<rfloor>"
    have ev_ge: "tMin \<le> ?ev" "?ev \<le> tMax" using False assms(3) by auto
    have n1: "0 \<le> (t - tMin) / dt" using Cons.prems(2) dt0 by simp
    have n2: "0 \<le> (?ev - tMin) / dt" using ev_ge(1) dt0 by (simp del: if_split)
    have ok': "cache_ok rate xvals ?c'" by (rule cache_with_ok[OF Cons.prems(1)])
    have look: "(case ?c' nev of None \<Rightarrow> [] | Some p \<Rightarrow> p) = curve rate xvals nev"
      by (rule cache_with_lookup[OF Cons.prems(1)])
    have "pos_fin ?probs"
      by (rule pos_fin_slice[OF curve_pos[OF assms(1) xpos]])
    from sum_recip_pos[OF this] obtain s' where
      s': "np_sum (np_recip ?probs) = Fin s'" "0 \<le> s'" "?probs \<noteq> [] \<longrightarrow> 0 < s'" by blast
    have step: "poissonIntegral_loop rate tMin tMax xvals dt (e # evs) (Fin s) t nev c =
       (if ?ev = tMax then (Inr (Fin (s + s')), ?c')
        else poissonIntegral_loop rate tMin tMax xvals dt evs (Fin (s + s')) ?ev (Suc nev) ?c')"
      unfolding loop_step[OF False dtne n1 n2] Let_def look s'(1) fl_add.simps ..
    show ?thesis
    proof (cases "?ev = tMax")
      case True
      have "(t - tMin) / dt < 999" using Cons.prems(3) assms(3) dt
        by (simp add: divide_less_eq)
      then have i1: "\<lfloor>(t - tMin) / dt\<rfloor> < 999" by (simp add: floor_less_iff)
      have i1': "0 \<le> \<lfloor>(t - tMin) / dt\<rfloor>" using n1 by simp
      have "(tMax - tMin) / dt = 999" unfolding dt using assms(3)
        by (simp add: divide_eq_eq algebra_simps)
      then have i2: "\<lfloor>(?ev - tMin) / dt\<rfloor> = 999" unfolding True by simp
      have "?probs \<noteq> []"
        unfolding i2
        by (rule py_slice_nonempty[OF i1' i1]) (simp add: curve_length xv linspace_length)
      with s' Cons.prems(4) have "0 < s + s'" by simp
      with step True ok' show ?thesis by (simp del: poissonIntegral_loop.simps)
    next
      case False2: False
      then have e_lt: "?ev < tMax" using ev_ge(2) by linarith
      then have "e < tMax" by (simp split: if_splits)
      then have ex: "\<exists>e\<in>set evs. tMax \<le> e" using Cons.prems(5) by auto
      have "0 \<le> s + s'" using Cons.prems(4) s'(2) by simp
      from Cons.IH[OF ok' ev_ge(1) e_lt this ex, of "Suc nev"] step False2
      show ?thesis by (simp del: poissonIntegral_loop.simps)
    qed
  qed
qed

lemma poissonIntegral_pos:
  assumes "0 < rate" "0 < tMin" "tMin < tMax"
    "cache_ok rate (linspace tMin tMax 1000) c"
  shows "\<exists>r c'. poissonIntegral c events rate tMin tMax = (Inr (Fin r), c')
                 \<and> 0 < r \<and> cache_ok rate (linspace tMin tMax 1000) c'"
proof -
  have "\<exists>e\<in>set (sort events @ [tMax]). tMax \<le> e" by simp
  from loop_pos[OF assms(1-3) refl refl assms(4) order_refl assms(3) order_refl this, of 0]
  obtain r c' where r:
    "poissonIntegral_loop rate tMin tMax (linspace tMin tMax 1000) ((tMax - tMin) / 999)
       (sort events @ [tMax]) (Fin 0) tMin 0 c = (Inr (Fin r), c')"
    "0 < r" "cache_ok rate (linspace tMin tMax 1000) c'"
    by blast
  have pos: "0 < r * ((tMax - tMin) / 999)" using r(2) assms(3) by simp
  have "poissonIntegral c events rate tMin tMax = (Inr (Fin (r * ((tMax - tMin) / 999))), c')"
    unfolding poissonIntegral_unfold r(1) by simp
  with pos r(3) show ?thesis by blast
qed

lemma blame_loop_pos:
  assumes "0 < rate" "0 < xMin" "xMin < xMax"
  shows "cache_ok rate (linspace xMin xMax 1000) c \<Longrightarrow>
         \<exists>w c'. poissonIntegralBlame_loop c ev rate xMin xMax js = (Inr w, c')
                 \<and> pos_fin w \<and> length w = length js
                 \<and> cache_ok rate (linspace xMin xMax 1000) c'"
proof (induction js arbitrary: c)
  case Nil
  then show ?case by (simp add: pos_fin_def)
next
  case (Cons i js)
  from poissonIntegral_pos[OF assms Cons.prems, of ev] obtain r1 c1 where
    1: "poissonIntegral c ev rate xMin xMax = (Inr (Fin r1), c1)" "0 < r1"
       "cache_ok rate (linspace xMin xMax 1000) c1" by blast
  from poissonIntegral_pos[OF assms 1(3), of "take i ev @ drop (Suc i) ev"] obtain r2 c2 where
    2: "poissonIntegral c1 (take i ev @ drop (Suc i) ev) rate xMin xMax = (Inr (Fin r2), c2)"
       "0 < r2" "cache_ok rate (linspace xMin xMax 1000) c2" by blast
  from Cons.IH[OF 2(3)] obtain w c3 where
    3: "poissonIntegralBlame_loop c2 ev rate xMin xMax js = (Inr w, c3)" "pos_fin w"
       "length w = length js" "cache_ok rate (linspace xMin xMax 1000) c3" by blast
  have "pos_fin (Fin (r1 / r2) # w)" using 1(2) 2(2) 3(2) by (simp add: pos_fin_def)
  then show ?case using 1 2 3 by simp
qed

lemma poissonIntegralBlame_returns:
  assumes "0 < rate" "0 < xMin" "xMin < xMax"
  shows "\<exists>w c'. poissonIntegralBlame Map.empty ev rate xMin xMax = (Inr w, c')
                 \<and> pos_fin w \<and> length w = length ev"
proof -
  have "cache_ok rate (linspace xMin xMax 1000) Map.empty" by (simp add: cache_ok_def)
  from blame_loop_pos[OF assms this, of ev "[0..<length ev]"] obtain w c' where
    w: "poissonIntegralBlame_loop Map.empty ev rate xMin xMax [0..<length ev] = (Inr w, c')"
       "pos_fin w" "length w = length [0..<length ev]" by blast
  have "\<not> list_ex isnan w" using w(2) by (auto simp: pos_fin_def list_ex_iff isnan_def)
  then show ?thesis using w by (simp add: poissonIntegralBlame_def)
qed


section \<open>Runs of the blame functions\<close>

lemma scoreBlame_one_event:
  "poissonScoreBlame (globals_at 157) (NdArray [1/10]) 2 = Inr [Fin 1]"
proof -
  have "exp (- (1/5)) * exp_series 1 (1/5) < (1::real)"
    by (rule cdf_core_less_one) simp
  then have ne: "exp (- (1/5 :: real)) * (6/5) \<noteq> 1" by simp
  have p: "poissonProb_121 a (NdArray [1/10]) 2 False = Inr [Fin (1 - exp (- (1/5)) * (6/5))]" for a
    by (simp add: poissonProb_121_def exc_bind_def np_one_minus_def poisson_cdf_def fl_sub_def)
  show ?thesis
    using ne
    by (simp add: poissonScoreBlame_def call_early p exc_bind_def np_recip_def np_broadcast_def
        list_pop_def fl_max_def isnan_def)
qed

lemma scoreBlame_event_at_zero:
  "poissonScoreBlame_loop (globals_at 157) (NdArray [0]) 2 [0] = Inr [NaN]
   \<and> poissonScoreBlame (globals_at 157) (NdArray [0]) 2 = Inl AssertionError"
proof -
  have p: "poissonProb_121 a (NdArray [0]) 2 False = Inr [Fin 0]" for a
    by (simp add: poissonProb_121_def exc_bind_def np_one_minus_def poisson_cdf_def fl_sub_def)
  show ?thesis
    by (simp add: poissonScoreBlame_def call_early p exc_bind_def np_recip_def np_broadcast_def
        list_pop_def fl_inf_def isnan_def)
qed

lemma exp_series_at_zero: "exp_series k 0 = 1"
  by (induction k) simp_all

lemma curve_at_zero:
  "curve rate (0 # xs) k = Fin 0 # curve rate xs k"
  by (simp add: curve_def poisson_cdf_def fl_sub_def exp_series_at_zero)

lemma linspace_from_zero:
  assumes "0 < b"
  shows "\<exists>xs. linspace 0 b 1000 = 0 # xs \<and> (\<forall>x\<in>set xs. 0 < x) \<and> length xs = 999"
proof -
  let ?f = "\<lambda>j. 0 + real j * ((b - 0) / real (1000 - 1))"
  have u: "[0..<1000::nat] = 0 # [Suc 0..<1000]" by (rule upt_conv_Cons) simp
  have "linspace 0 b 1000 = ?f 0 # map ?f [Suc 0..<1000]"
    by (simp only: linspace_def u list.map)
  then have "linspace 0 b 1000 = 0 # map ?f [Suc 0..<1000]" by simp
  moreover have "\<forall>x\<in>set (map ?f [Suc 0..<1000]). 0 < x"
    using assms by auto
  moreover have "length (map ?f [Suc 0..<1000]) = 999" by simp
  ultimately show ?thesis by blast
qed

lemma poissonIntegral_from_zero:
  assumes "0 < rate" "0 < tMax" "\<forall>e\<in>set events. tMax \<le> e"
    "cache_ok rate (linspace 0 tMax 1000) c"
  shows "poissonIntegral c events rate 0 tMax
         = (Inr PInf, cache_with c rate (linspace 0 tMax 1000) 0)"
proof -
  from linspace_from_zero[OF assms(2)] obtain xs where
    xs: "linspace 0 tMax 1000 = 0 # xs" "\<forall>x\<in>set xs. 0 < x" "length xs = 999" by blast
  have cc: "cached_curve c rate (linspace 0 tMax 1000) 0 = curve rate (linspace 0 tMax 1000) 0"
    using assms(4) by (auto simp: cached_curve_def cache_ok_def split: option.splits)
  have "pos_fin (take 998 (curve rate xs 0))"
    using curve_pos[OF assms(1) xs(2), of 0]
    by (auto simp: pos_fin_def dest!: in_set_takeD)
  from sum_recip_pos[OF this] obtain s where
    s: "np_sum (np_recip (take 998 (curve rate xs 0))) = Fin s" by blast
  have "py_slice (curve rate (linspace 0 tMax 1000) 0) 0 999
        = Fin 0 # take 998 (curve rate xs 0)"
    by (simp add: xs(1) curve_at_zero py_slice_def slice_index_def curve_length xs(3))
  then have "np_sum (np_recip (py_slice (curve rate (linspace 0 tMax 1000) 0) 0 999)) = PInf"
    using s by (simp add: np_recip_def np_sum_def fl_inf_def)
  then show ?thesis
    using assms(2,3) by (simp add: poissonIntegral_beyond cc fl_inf_def)
qed

lemma integralBlame_from_zero:
  "\<exists>c''. poissonIntegralBlame_loop Map.empty [2] 1 0 1 [0] = (Inr [NaN], c'')
         \<and> poissonIntegralBlame Map.empty [2] 1 0 1 = (Inl AssertionError, c'')"
proof -
  let ?xs = "linspace 0 1 1000"
  let ?c1 = "cache_with Map.empty 1 ?xs 0"
  have ok0: "cache_ok 1 ?xs Map.empty" by (simp add: cache_ok_def)
  have ok1: "cache_ok 1 ?xs ?c1" by (rule cache_with_ok[OF ok0])
  have 1: "poissonIntegral Map.empty [2] 1 0 1 = (Inr PInf, ?c1)"
    by (rule poissonIntegral_from_zero[OF _ _ _ ok0]) simp_all
  have 2: "poissonIntegral ?c1 [] 1 0 1 = (Inr PInf, cache_with ?c1 1 ?xs 0)"
    by (rule poissonIntegral_from_zero[OF _ _ _ ok1]) simp_all
  have "poissonIntegralBlame_loop Map.empty [2] 1 0 1 [0]
        = (Inr [NaN], cache_with ?c1 1 ?xs 0)"
    by (simp add: 1 2)
  then show ?thesis
    by (simp add: poissonIntegralBlame_def isnan_def)
qed

section \<open>The first \<^verbatim>\<open>poissonProb\<close> and the number of events\<close>

text \<open>
  When the window ends are the events themselves, in strictly increasing order, the
  position of a window end is the number of events at or before it, and the function of
  line 121 agrees with the specification of \<open>windowedExceedanceProbability\<close>. This is the
  call that \<open>poissonScore\<close> makes. For any other \<open>events\<close> the result is the same as for these.
\<close>

lemma count_strictly_sorted:
  assumes "sorted_wrt (<) ts" "i < length ts"
  shows "count_at_or_before ts (ts ! i) = Suc i"
proof -
  have "filter (\<lambda>t. t \<le> ts ! i) ts = take (Suc i) ts"
  proof -
    have ts: "ts = take (Suc i) ts @ drop (Suc i) ts" by simp
    have a: "\<forall>t\<in>set (take (Suc i) ts). t \<le> ts ! i"
    proof
      fix t assume "t \<in> set (take (Suc i) ts)"
      then obtain j where j: "j < Suc i" "t = ts ! j"
        using assms(2) by (auto simp: in_set_conv_nth)
      show "t \<le> ts ! i"
      proof (cases "j = i")
        case True
        with j show ?thesis by simp
      next
        case False
        with j have "j < i" by simp
        from sorted_wrt_nth_less[OF assms(1) this assms(2)] j show ?thesis by simp
      qed
    qed
    have b: "\<forall>t\<in>set (drop (Suc i) ts). \<not> t \<le> ts ! i"
    proof
      fix t assume "t \<in> set (drop (Suc i) ts)"
      then obtain j where "j < length (drop (Suc i) ts)" "t = drop (Suc i) ts ! j"
        by (auto simp: in_set_conv_nth)
      then have j: "Suc i + j < length ts" "t = ts ! (Suc i + j)" by simp_all
      have "i < Suc i + j" by simp
      from sorted_wrt_nth_less[OF assms(1) this j(1)] j show "\<not> t \<le> ts ! i" by simp
    qed
    have "filter P (xs @ ys) = xs" if "\<forall>t\<in>set xs. P t" "\<forall>t\<in>set ys. \<not> P t"
      for P :: "real \<Rightarrow> bool" and xs ys
      using that by (simp add: filter_id_conv filter_empty_conv)
    from this[OF a b] show ?thesis by simp
  qed
  then show ?thesis using assms(2) by (simp add: count_at_or_before_def)
qed

lemma poissonProb_121_on_own_events:
  assumes "sorted_wrt (<) (items ev)" "\<not> (correctForSelection \<and> rate = 0)"
  shows "poissonProb_121 ev ev rate correctForSelection
         = Inr (windowedExceedanceProbability_spec (items ev) (items ev) rate correctForSelection)"
proof -
  define e where "e = (if correctForSelection then 1 / rate else 0)"
  define ts where "ts = items ev"
  have "windowedExceedanceProbability_spec ts ts rate correctForSelection
        = map (\<lambda>j. fl_sub (Fin 1) (poisson_cdf (real (count_at_or_before ts (ts ! j)))
                                      (rate * (ts ! j + e))))
              [0..<length ts]"
    unfolding windowedExceedanceProbability_spec_def e_def
    by (rule nth_equalityI) simp_all
  also have "\<dots> = map (\<lambda>j. fl_sub (Fin 1) (poisson_cdf (real (0 + j + 1)) (rate * (ts ! j + e))))
                     [0..<length ts]"
    using count_strictly_sorted[OF assms(1)] by (simp add: ts_def)
  also have "\<dots> = np_one_minus (map (\<lambda>j. poisson_cdf (real (0 + j + 1)) (rate * (ts ! j + e)))
                                  [0..<length ts])"
    by (simp add: np_one_minus_def)
  finally have "Inr (windowedExceedanceProbability_spec ts ts rate correctForSelection)
        = poissonProb_121 ev ev rate correctForSelection"
    unfolding poissonProb_121_def poissonProb_121_loop_eq[OF assms(2)] exc_bind_def e_def ts_def
    by simp
  then show ?thesis by (simp add: ts_def)
qed

lemma poissonProb_121_same_for_all_events:
  "poissonProb_121 ev1 xvals rate c = poissonProb_121 ev2 xvals rate c"
  by (simp add: poissonProb_121_def)


text \<open>
  \<open>poissonScoreBlame\<close> compares the result for the events with the result for the events
  without one of them. Since the function of line 121 does not read its events, the two
  results are equal, and with it the blame of every event is \<open>1\<close> (for a positive rate and
  positive event times).
\<close>

lemma poissonProb_121_pos:
  assumes "0 < rate" "\<forall>x\<in>set (items xvals). 0 < x"
  shows "\<exists>r. poissonProb_121 a xvals rate False = Inr r \<and> pos_fin r
             \<and> length r = length (items xvals)"
proof -
  define r where "r = np_one_minus (map (\<lambda>j. poisson_cdf (real (0 + j + 1))
                        (rate * (items xvals ! j + 0))) [0..<length (items xvals)])"
  have "poissonProb_121 a xvals rate False = Inr r"
    by (simp add: poissonProb_121_def poissonProb_121_loop_eq exc_bind_def r_def)
  moreover have "pos_fin r"
    unfolding pos_fin_def
  proof
    fix y assume "y \<in> set r"
    then obtain j where j: "j < length (items xvals)"
      and y: "y = fl_sub (Fin 1) (poisson_cdf (real (Suc j)) (rate * (items xvals ! j)))"
      by (auto simp: r_def np_one_minus_def)
    have mu: "0 < rate * (items xvals ! j)" using assms j by simp
    then have "poisson_cdf (real (Suc j)) (rate * (items xvals ! j))
               = Fin (exp (- (rate * (items xvals ! j))) * exp_series (Suc j) (rate * (items xvals ! j)))"
      by (intro poisson_cdf_nat less_imp_le)
    moreover have "exp (- (rate * (items xvals ! j))) * exp_series (Suc j) (rate * (items xvals ! j)) < 1"
      using mu by (rule cdf_core_less_one)
    ultimately show "\<exists>p. y = Fin p \<and> 0 < p" unfolding y by (simp add: fl_sub_def)
  qed
  moreover have "length r = length (items xvals)" by (simp add: r_def np_one_minus_def)
  ultimately show ?thesis by blast
qed

lemma foldl_fl_max_ones: "foldl fl_max (Fin 1) (map (\<lambda>_. Fin 1) xs) = Fin 1"
  by (induction xs) (simp_all add: fl_max_def isnan_def)

lemma ratio_of_equal_arrays:
  assumes "pos_fin r" "r \<noteq> []"
  shows "\<exists>q. np_broadcast fl_div (np_recip r) (np_recip r) = Inr q \<and> np_max q = Inr (Fin 1)"
proof -
  have "map2 fl_div (np_recip r) (np_recip r) = map (\<lambda>_. Fin 1) r"
  proof (rule nth_equalityI)
    show "length (map2 fl_div (np_recip r) (np_recip r)) = length (map (\<lambda>_. Fin 1) r)"
      by (simp add: np_recip_def)
  next
    fix i assume "i < length (map2 fl_div (np_recip r) (np_recip r))"
    then have i: "i < length r" by (simp add: np_recip_def)
    then have "r ! i \<in> set r" by simp
    with assms(1) obtain p where p: "r ! i = Fin p" "0 < p" by (auto simp: pos_fin_def)
    then show "map2 fl_div (np_recip r) (np_recip r) ! i = map (\<lambda>_. Fin 1) r ! i"
      using i by (simp add: np_recip_def)
  qed
  moreover obtain x xs where "r = x # xs" using assms(2) by (cases r) auto
  ultimately show ?thesis
    by (simp add: np_broadcast_def foldl_fl_max_ones)
qed

lemma poissonScoreBlame_loop_ones:
  assumes "121 \<le> l" "l < 266" "0 < rate" "\<forall>x\<in>set (items ev). 0 < x"
  shows "\<forall>j\<in>set js. j < length (items ev) \<Longrightarrow>
         poissonScoreBlame_loop (globals_at l) ev rate js = Inr (map (\<lambda>_. Fin 1) js)"
proof (induction js)
  case Nil
  then show ?case by simp
next
  case (Cons j js)
  have it: "items (seq_from j ev) = drop j (items ev)" by (cases ev) simp_all
  have pos: "\<forall>x\<in>set (items (seq_from j ev)). 0 < x"
    using assms(4) by (auto simp: it dest: in_set_dropD)
  obtain r where r: "poissonProb_121 ev (seq_from j ev) rate False = Inr r" "pos_fin r"
    "length r = length (items (seq_from j ev))"
    using poissonProb_121_pos[OF assms(3) pos] by blast
  have r2: "poissonProb_121 (list_pop j ev) (seq_from j ev) rate False = Inr r"
    using r(1) by (simp add: poissonProb_121_def)
  have "r \<noteq> []" using r(3) Cons.prems by (auto simp: it)
  from ratio_of_equal_arrays[OF r(2) this] obtain q where
    m: "np_broadcast fl_div (np_recip r) (np_recip r) = Inr q" "np_max q = Inr (Fin 1)"
    by blast
  have rest: "poissonScoreBlame_loop (globals_at l) ev rate js = Inr (map (\<lambda>_. Fin 1) js)"
    using Cons by simp
  show ?case
    by (simp add: call_early[OF assms(1,2)] r(1) r2 m rest exc_bind_def)
qed

lemma poissonScoreBlame_ones:
  assumes "121 \<le> l" "l < 266" "0 < rate" "\<forall>x\<in>set (items ev). 0 < x"
  shows "poissonScoreBlame (globals_at l) ev rate = Inr (map (\<lambda>_. Fin 1) (items ev))"
proof -
  have "poissonScoreBlame_loop (globals_at l) ev rate [0..<length (items ev)]
        = Inr (map (\<lambda>_. Fin 1) [0..<length (items ev)])"
    by (rule poissonScoreBlame_loop_ones[OF assms]) simp
  moreover have "map (\<lambda>_. Fin 1 :: pyfloat) [0..<length (items ev)] = map (\<lambda>_. Fin 1) (items ev)"
    by (rule nth_equalityI) simp_all
  ultimately show ?thesis
    by (auto simp: poissonScoreBlame_def exc_bind_def list_ex_iff isnan_def)
qed


section \<open>Monotonicity of the second \<^verbatim>\<open>poissonProb\<close>\<close>

text \<open>
  The docstring of the function of line 266 promises the probability of seeing at least
  \<open>n\<close> events in \<open>t\<close> seconds, which is \<open>prob_at_least n (l * t)\<close>. The body returns the
  distribution function at \<open>n - 1\<close>, which is the complement of that probability. The
  promised quantity is non-decreasing in \<open>t\<close> and non-increasing in \<open>n\<close>; the returned one
  goes the other way.
\<close>

lemma poissonProb_266_complement:
  assumes "1 \<le> n" "0 \<le> l * t"
  shows "poissonProb_266 n t l = Fin (1 - prob_at_least (nat n) (l * t))"
proof -
  have "nat \<lfloor>real_of_int (n - 1)\<rfloor> = nat n - 1" using assms(1) by simp
  then show ?thesis
    using assms by (simp add: poissonProb_266_def poisson_cdf_def prob_at_least_def)
qed

lemma prob_at_least_mono_t:
  assumes "0 \<le> a" "a \<le> b"
  shows "prob_at_least n a \<le> prob_at_least n b"
  using cdf_core_antimono[OF assms, of "n - 1"] by (simp add: prob_at_least_def)

lemma prob_at_least_antimono_n:
  assumes "0 \<le> mu" "n \<le> m"
  shows "prob_at_least m mu \<le> prob_at_least n mu"
proof (cases "n = 0")
  case True
  have "0 \<le> exp (- mu) * exp_series (m - 1) mu"
    using assms(1) by (simp add: exp_series_nonneg)
  then show ?thesis using True by (simp add: prob_at_least_def)
next
  case False
  then have "n - 1 \<le> m - 1" "m \<noteq> 0" using assms(2) by simp_all
  from exp_series_mono[OF assms(1) this(1)] this(2) False show ?thesis
    by (simp add: prob_at_least_def)
qed

text \<open>
  What the function returns is non-increasing in \<open>t\<close>: for a fixed count \<open>n\<close>, a positive
  rate and times \<open>0 \<le> t1 \<le> t2\<close>, the value at \<open>t2\<close> is at most the value at \<open>t1\<close>.
\<close>

theorem poissonProb_266_antimono_t:
  assumes "0 < rate" "0 \<le> t1" "t1 \<le> t2"
  shows "fl_le (poissonProb_266 n t2 rate) (poissonProb_266 n t1 rate)"
proof -
  have a: "0 \<le> rate * t1" "rate * t1 \<le> rate * t2" using assms by simp_all
  then have b: "0 \<le> rate * t2" by linarith
  show ?thesis
    using a b cdf_core_antimono[OF a, of "nat \<lfloor>real_of_int (n - 1)\<rfloor>"]
    by (simp add: poissonProb_266_def poisson_cdf_def)
qed

theorem poissonProb_266_antimono_t_witness:
  "(0::real) < 5 \<and> (0::real) \<le> 1/10 \<and> (1/10::real) \<le> 1
   \<and> fl_le (poissonProb_266 3 1 5) (poissonProb_266 3 (1/10) 5)"
  using poissonProb_266_antimono_t[of 5 "1/10" 1 3] by simp

text \<open>
  Claim C4. The specification asks that \<open>probabilityOfAtLeastN n t rate\<close> be non-decreasing
  in \<open>t\<close>, as the probability of at least \<open>n\<close> events that the docstring promises is. The
  function returns the complement and is not: with \<open>n = 3\<close> and \<open>rate = 5\<close> the value at
  \<open>t = 0.1\<close> is \<open>13/8 * exp (-1/2)\<close>, the value at \<open>t = 1\<close> is \<open>37/2 * exp (-5)\<close>, and the first
  is not below the second.
\<close>

theorem poissonProb_266_not_mono_t:
  "\<not> fl_le (poissonProb_266 3 (1/10) 5) (poissonProb_266 3 1 5)"
proof -
  have "1 + 9/2 + (9/2)\<^sup>2 / 2 \<le> exp (9/2 :: real)"
    by (rule exp_lower_Taylor_quadratic) simp
  then have e: "(148/13 :: real) < exp (9/2)" by (simp add: power2_eq_square)
  have "exp (- 5 :: real) = exp (- (1/2)) * exp (- (9/2))"
    by (simp add: exp_add[symmetric])
  moreover have "exp (- (9/2) :: real) < 13/148"
    using e by (simp add: exp_minus field_simps)
  ultimately have "exp (- 5 :: real) * (37/2) < exp (- (1/2)) * (13/8)"
    by (simp add: field_simps)
  then show ?thesis
    by (simp add: poissonProb_266_def poisson_cdf_def eval_nat_numeral field_simps)
qed

text \<open>
  What the function returns is non-decreasing in \<open>n\<close>, since the distribution function grows
  with its argument: for a positive rate, a time \<open>0 \<le> t\<close> and counts \<open>n \<le> m\<close>, the value at \<open>n\<close>
  is at most the value at \<open>m\<close>.
\<close>

theorem poissonProb_266_mono_n:
  assumes "0 < rate" "0 \<le> t" "n \<le> m"
  shows "fl_le (poissonProb_266 n t rate) (poissonProb_266 m t rate)"
proof -
  have mu: "0 \<le> rate * t" using assms by simp
  have "nat \<lfloor>real_of_int (n - 1)\<rfloor> \<le> nat \<lfloor>real_of_int (m - 1)\<rfloor>"
    using assms(3) by simp
  from exp_series_mono[OF mu this] have
    "exp (- (rate * t)) * exp_series (nat \<lfloor>real_of_int (n - 1)\<rfloor>) (rate * t)
      \<le> exp (- (rate * t)) * exp_series (nat \<lfloor>real_of_int (m - 1)\<rfloor>) (rate * t)"
    by simp
  moreover have "0 \<le> exp (- (rate * t)) * exp_series (nat \<lfloor>real_of_int (m - 1)\<rfloor>) (rate * t)"
    using mu by (simp add: exp_series_nonneg)
  ultimately show ?thesis
    using mu assms(3) by (simp add: poissonProb_266_def poisson_cdf_def)
qed

theorem poissonProb_266_mono_n_witness:
  "(0::real) < 1 \<and> (0::real) \<le> 1 \<and> (1::int) \<le> 2
   \<and> fl_le (poissonProb_266 1 1 1) (poissonProb_266 2 1 1)"
  using poissonProb_266_mono_n[of 1 1 1 2] by simp

text \<open>
  Claim C5. The specification asks that \<open>probabilityOfAtLeastN n t rate\<close> be non-increasing
  in \<open>n\<close>, as the probability of at least \<open>n\<close> events that the docstring promises is. The
  function returns the complement and is not: at \<open>t = 1\<close> and \<open>rate = 1\<close> the value for \<open>n = 1\<close>
  is \<open>exp (-1)\<close> and the value for \<open>n = 2\<close> is \<open>2 * exp (-1)\<close>, which is larger.
\<close>

theorem poissonProb_266_not_antimono_n:
  "\<not> fl_le (poissonProb_266 2 1 1) (poissonProb_266 1 1 1)"
  by (simp add: poissonProb_266_def poisson_cdf_def)

section \<open>The score\<close>

text \<open>
  The score engine of the specification is \<open>poissonScore\<close> together with the \<open>poissonProb\<close>
  of line 121, that is with the module globals as they are from line 121 up to the
  rebinding of line 266. What the rebinding does to \<open>poissonScore\<close> is in the next section.
\<close>

text \<open>
  Claim C1, as amended. For every \<open>rate > 0\<close> and event times that are not negative:
  \<open>poissonScore\<close> returns \<open>1.0\<close> on an empty sequence, and on a non-empty one
  \<open>(1 / p_min) / sqrt rate\<close>, where \<open>p_min\<close> is the minimum over the prefixes ending at the
  \<open>i\<close>-th event (counted from one) of the probability that more than \<open>i\<close> events occur in
  the window \<open>[0, t\<^sub>i]\<close> lengthened by \<open>1 / rate\<close>, that is \<open>1 - CDF(i; rate * (t\<^sub>i + 1 / rate))\<close>.
\<close>

theorem poissonScore_value:
  assumes "121 \<le> l" "l < 266" "0 < rate" "\<forall>t\<in>set (items events). 0 \<le> t"
  shows "poissonScore (globals_at l) events rate
         = Inr (Fin (score_formula prob_more_than rate (items events)))"
  using assms by (rule poissonScore_121_formula)


theorem poissonScore_value_witness:
  "(121::nat) \<le> 157 \<and> (157::nat) < 266 \<and> (0::real) < 2
   \<and> items (NdArray [1/10]) = [1/10] \<and> (0::real) \<le> 1/10
   \<and> poissonScore (globals_at 157) (NdArray [1/10]) 2
       = Inr (Fin (score_formula prob_more_than 2 [1/10]))
   \<and> poissonScore (globals_at 157) (NdArray []) 2 = Inr (Fin 1)"
  using poissonScore_value[of 157 2 "NdArray [1/10]"] poissonScore_value[of 157 2 "NdArray []"]
  by (simp add: score_formula_def)

text \<open>
  Claim C1 as the specification states it, with the probability that \<open>i\<close> or more events
  occur (\<open>1 - CDF(i - 1; \<dots>)\<close>), fails: for the single event \<open>0.1\<close> at \<open>rate = 2\<close> the function
  returns \<open>1 / (1 - 2.2 * exp (-1.2)) / sqrt 2\<close>, the stated formula gives
  \<open>1 / (1 - exp (-1.2)) / sqrt 2\<close>.
\<close>

theorem poissonScore_not_at_least:
  "poissonScore (globals_at 157) (NdArray [1/10]) 2
   \<noteq> Inr (Fin (score_formula prob_at_least 2 [1/10]))"
proof -
  have "poissonScore (globals_at 157) (NdArray [1/10]) 2
        = Inr (Fin (score_formula prob_more_than 2 [1/10]))"
    using poissonScore_121_formula[of 157 2 "NdArray [1/10]"] by simp
  moreover have "score_formula prob_more_than 2 [1/10] \<noteq> score_formula prob_at_least 2 [1/10]"
    by (simp add: score_formula_def window_probs_def prob_more_than_def prob_at_least_def)
  ultimately show ?thesis by simp
qed


text \<open>
  Claim C2. The specification lets \<open>windowedExceedanceProbability\<close> use the number of
  events at or before each window end. The function of line 121 never reads \<open>events\<close>: it
  uses the position of the window end in \<open>xvals\<close>. The two differ as soon as \<open>xvals\<close> is not
  the event sequence itself, as in the call of line 214, where an event has been removed
  from \<open>events\<close>: for \<open>events = [0.3]\<close>, \<open>xvals = [0.1, 0.3]\<close> at \<open>rate = 2\<close> the function returns
  \<open>[1 - CDF(1; 0.2), 1 - CDF(2; 0.6)]\<close> and the specification gives
  \<open>[1 - CDF(0; 0.2), 1 - CDF(1; 0.6)]\<close>.
\<close>

theorem poissonProb_121_ignores_events:
  "poissonProb_121 (PyList [3/10]) (NdArray [1/10, 3/10]) 2 False
   \<noteq> Inr (windowedExceedanceProbability_spec [3/10] [1/10, 3/10] 2 False)"
  by (simp add: poissonProb_121_def exc_bind_def np_one_minus_def
      windowedExceedanceProbability_spec_def count_at_or_before_def poisson_cdf_def fl_sub_def)


text \<open>
  With the \<open>poissonProb\<close> of line 121, inserting the event \<open>0.02\<close> into the events
  \<open>[0.1, 0.3, 0.5, 0.7]\<close> at \<open>rate = 2\<close> strictly increases the score: this is what the score
  engine is meant to do.
\<close>

theorem poissonScore_insert_early_event:
  "\<exists>a b. poissonScore (globals_at 157) (NdArray [1/10, 3/10, 1/2, 7/10]) 2 = Inr (Fin a)
       \<and> poissonScore (globals_at 157) (NdArray [1/50, 1/10, 3/10, 1/2, 7/10]) 2 = Inr (Fin b)
       \<and> a < b"
proof -
  define ps where "ps = window_probs prob_more_than 2 [1/10, 3/10, 1/2, 7/10]"
  define qs where "qs = window_probs prob_more_than 2 [1/50, 1/10, 3/10, 1/2, 7/10]"
  have ps: "ps = [prob_more_than 1 (6/5), prob_more_than 2 (8/5), prob_more_than 3 2,
                  prob_more_than 4 (12/5)]"
    by (simp add: ps_def window_probs_def upt_conv_Cons eval_nat_numeral)
  have qs: "qs = [prob_more_than 1 (26/25), prob_more_than 2 (6/5), prob_more_than 3 (8/5),
                  prob_more_than 4 2, prob_more_than 5 (12/5)]"
    by (simp add: qs_def window_probs_def upt_conv_Cons eval_nat_numeral)
  have s: "prob_more_than (Suc i) mu < prob_more_than i mu" if "0 < mu" for i mu
    using that by (rule prob_more_than_Suc)
  have "\<forall>p\<in>set ps. \<exists>q\<in>set qs. q < p"
    using s[of "6/5" 1] s[of "8/5" 2] s[of 2 3] s[of "12/5" 4]
    by (simp add: ps qs eval_nat_numeral)
  moreover have "ps \<noteq> []" by (simp add: ps)
  ultimately have lt: "Min (set qs) < Min (set ps)" by (rule Min_less_Min[rotated])
  have "qs \<noteq> []" by (simp add: qs)
  then have "Min (set qs) \<in> set qs" by (intro Min_in) auto
  then have pos: "0 < Min (set qs)"
    using window_probs_pos[of 2 "[1/50, 1/10, 3/10, 1/2, 7/10]" "Min (set qs)"]
    by (simp add: qs_def)
  have a: "poissonScore (globals_at 157) (NdArray [1/10, 3/10, 1/2, 7/10]) 2
           = Inr (Fin (1 / Min (set ps) / sqrt 2))"
    using poissonScore_121_formula[of 157 2 "NdArray [1/10, 3/10, 1/2, 7/10]"]
    by (simp add: score_formula_def ps_def)
  have b: "poissonScore (globals_at 157) (NdArray [1/50, 1/10, 3/10, 1/2, 7/10]) 2
           = Inr (Fin (1 / Min (set qs) / sqrt 2))"
    using poissonScore_121_formula[of 157 2 "NdArray [1/50, 1/10, 3/10, 1/2, 7/10]"]
    by (simp add: score_formula_def qs_def)
  have "1 / Min (set ps) < 1 / Min (set qs)"
    using lt pos by (simp add: frac_less2)
  then have "1 / Min (set ps) / sqrt 2 < 1 / Min (set qs) / sqrt 2"
    by (rule divide_strict_right_mono) simp
  with a b show ?thesis by blast
qed


section \<open>The rebinding of \<^verbatim>\<open>poissonProb\<close>\<close>

text \<open>
  Claim C3. Once the \<^verbatim>\<open>def\<close> of line 266 has been executed, \<open>poissonScore\<close> raises
  \<open>TypeError\<close> on every non-empty event sequence and for every rate: the name
  \<open>poissonProb\<close> is bound to the function of three parameters \<open>n\<close>, \<open>t\<close>, \<open>l\<close>, which has no
  parameter \<open>correctForSelection\<close>. \<open>poissonScoreBlame\<close> raises \<open>TypeError\<close> as well. Its two
  calls give no keyword and bind; the exception comes out of the body of the rebound
  function, where \<^verbatim>\<open>l*t\<close> multiplies a float and a list when the events are a list, and
  \<^verbatim>\<open>n-1\<close> subtracts from the list \<^verbatim>\<open>ev2\<close> when they are an array.
\<close>

theorem poissonScore_after_rebinding:
  assumes "266 \<le> l" "items events \<noteq> []"
  shows "poissonScore (globals_at l) events rate = Inl TypeError
         \<and> poissonScoreBlame (globals_at l) events rate = Inl TypeError"
proof -
  have "[0..<length (items events)] = 0 # [1..<length (items events)]"
    using assms(2) by (simp add: upt_conv_Cons)
  then show ?thesis
    using assms by (simp add: poissonScore_def poissonScoreBlame_def call_late_keyword
        blame_loop_late exc_bind_def del: poissonScoreBlame_loop.simps)
qed

theorem poissonScore_after_rebinding_witness:
  "(266::nat) \<le> 743 \<and> items (NdArray [1/10, 3/10]) \<noteq> []
   \<and> poissonScore (globals_at 743) (NdArray [1/10, 3/10]) 2 = Inl TypeError
   \<and> poissonScoreBlame (globals_at 743) (NdArray [1/10, 3/10]) 2 = Inl TypeError"
  using poissonScore_after_rebinding[of 743 "NdArray [1/10, 3/10]" 2] by simp


text \<open>
  Claim C8. The specification asks that inserting the event \<open>0.02\<close> into the events
  \<open>[0.1, 0.3, 0.5, 0.7]\<close> at \<open>rate = 2\<close> strictly increase the value returned by
  \<open>poissonScore\<close>. In the module as it is when its calls of \<open>poissonScore\<close> are reached (lines
  562 and 703, after the rebinding of line 266), neither call returns a value: both raise
  \<open>TypeError\<close>, by the defect of claim C3.
\<close>

theorem poissonScore_insert_early_event_raises:
  "poissonScore (globals_at 703) (NdArray [1/10, 3/10, 1/2, 7/10]) 2 = Inl TypeError
   \<and> poissonScore (globals_at 703) (NdArray [1/50, 1/10, 3/10, 1/2, 7/10]) 2 = Inl TypeError"
  by (simp add: poissonScore_def call_late_keyword exc_bind_def)


section \<open>The integral: cache and input checks\<close>

text \<open>
  Claim C6. Two successive calls of \<open>poissonIntegral\<close> that share the cache and differ only
  in the rate: no events, the window \<open>[1, 2]\<close>, first \<open>rate = 1\<close> on the empty cache, then
  \<open>rate = 2\<close> on the cache the first call left. The second call finds the curve for the count
  \<open>0\<close> in the cache, which was computed for \<open>rate = 1\<close>, and returns the value of the first
  call; the same call on an empty cache returns a different value.
\<close>

theorem poissonIntegral_cache_reuse:
  "fst (poissonIntegral (snd (poissonIntegral Map.empty [] 1 1 2)) [] 2 1 2)
     = fst (poissonIntegral Map.empty [] 1 1 2)
   \<and> fst (poissonIntegral (snd (poissonIntegral Map.empty [] 1 1 2)) [] 2 1 2)
     \<noteq> fst (poissonIntegral Map.empty [] 2 1 2)"
proof -
  let ?xs = "take 999 (linspace 1 2 1000)"
  let ?g = "\<lambda>r x::real. 1 / (1 - exp (- (r * x)))"
  have f1: "poissonIntegral Map.empty [] 1 1 2
            = (Inr (Fin (sum_list (map (?g 1) ?xs) * ((2 - 1) / 999))),
               [0 \<mapsto> curve 1 (linspace 1 2 1000) 0])"
    by (rule poissonIntegral_fresh) simp_all
  have f2: "poissonIntegral Map.empty [] 2 1 2
            = (Inr (Fin (sum_list (map (?g 2) ?xs) * ((2 - 1) / 999))),
               [0 \<mapsto> curve 2 (linspace 1 2 1000) 0])"
    by (rule poissonIntegral_fresh) simp_all
  have reuse: "poissonIntegral (snd (poissonIntegral Map.empty [] 1 1 2)) [] 2 1 2
               = poissonIntegral Map.empty [] 1 1 2"
    using poissonIntegral_cached[of 1 2 "snd (poissonIntegral Map.empty [] 1 1 2)" _ 1
        "fst (poissonIntegral Map.empty [] 1 1 2)" 2]
    by (simp add: f1)
  have ne: "?xs \<noteq> []" by (simp add: linspace_def)
  have "?g 2 x < ?g 1 x" if "x \<in> set ?xs" for x
  proof -
    have "x \<in> set (linspace 1 2 1000)" using that by (rule in_set_takeD)
    then have x: "0 < x" using linspace_ge[of 1 2 x] by simp
    then have "exp (- (2 * x)) < exp (- (1 * x))" by simp
    moreover have "exp (- (1 * x)) < 1" using x by simp
    ultimately show ?thesis by (simp add: frac_less2)
  qed
  with ne have "sum_list (map (?g 2) ?xs) < sum_list (map (?g 1) ?xs)"
    by (rule sum_list_strict_mono)
  then have "sum_list (map (?g 2) ?xs) * ((2 - 1) / 999)
             \<noteq> sum_list (map (?g 1) ?xs) * ((2 - 1) / 999)"
    by simp
  then show ?thesis
    unfolding reuse by (simp add: f1 f2)
qed


text \<open>
  Claim C7, as amended. The scoring operations do not check the rate. For every
  \<open>rate \<le> 0\<close>: \<open>poissonIntegral\<close> on no events, an empty cache and a window
  \<open>0 \<le> tMin < tMax\<close> raises nothing and returns \<open>inf\<close> for \<open>rate = 0\<close> and \<open>nan\<close> for \<open>rate < 0\<close>;
  and \<open>poissonScore\<close>, with \<open>poissonProb\<close> bound to its first definition (the module globals
  from line 121 up to the rebinding of line 266), returns \<open>1.0\<close> on an empty event sequence.
\<close>

theorem scoring_rate_not_checked:
  assumes "rate \<le> 0"
  shows "(121 \<le> l \<and> l < 266 \<and> items events = []
            \<longrightarrow> poissonScore (globals_at l) events rate = Inr (Fin 1))
         \<and> (0 \<le> tMin \<and> tMin < tMax
            \<longrightarrow> fst (poissonIntegral Map.empty [] rate tMin tMax)
                = Inr (if rate = 0 then PInf else NaN))"
proof (cases "rate = 0")
  case True
  then show ?thesis
    by (simp add: poissonScore_empty poissonIntegral_zero_rate)
next
  case False
  then have "rate < 0" using assms(1) by simp
  then show ?thesis
    using False by (simp add: poissonScore_empty poissonIntegral_negative_rate)
qed

theorem scoring_rate_not_checked_witness:
  "(- 1 :: real) \<le> 0 \<and> (0 :: real) \<le> 0
   \<and> (121::nat) \<le> 157 \<and> (157::nat) < 266 \<and> items (NdArray []) = []
   \<and> poissonScore (globals_at 157) (NdArray []) (- 1) = Inr (Fin 1)
   \<and> poissonScore (globals_at 157) (NdArray []) 0 = Inr (Fin 1)
   \<and> (0::real) \<le> 0 \<and> (0::real) < 1
   \<and> fst (poissonIntegral Map.empty [] (- 1) 0 1) = Inr NaN
   \<and> fst (poissonIntegral Map.empty [] 0 0 1) = Inr PInf"
  using scoring_rate_not_checked[of "- 1" 157 "NdArray []" 0 1]
    scoring_rate_not_checked[of 0 157 "NdArray []" 0 1]
  by simp

text \<open>
  Claim C7 as the specification states it fails: with \<open>rate = -1\<close>, no events and the window
  \<open>[0, 1]\<close>, \<open>poissonIntegral\<close> raises nothing and returns \<open>nan\<close>.
\<close>

theorem poissonIntegral_negative_rate_returns:
  "fst (poissonIntegral Map.empty [] (- 1) 0 1) = Inr NaN"
  by (simp add: poissonIntegral_negative_rate)



text \<open>
  Claim C10, as amended. \<open>poissonIntegral\<close> does not compare \<open>tMin\<close> and \<open>tMax\<close>. For
  \<open>tMin = tMax\<close> the grid spacing is zero and \<^verbatim>\<open>int((t-tMin) / dt)\<close> raises \<open>ValueError\<close> on the
  \<open>nan\<close> that \<open>0/0\<close> gives, for every event sequence, rate and cache. For \<open>tMin > tMax\<close> the
  call raises nothing and returns a value, which is \<open>0\<close> when no event is at or after
  \<open>tMin\<close>.
\<close>

theorem poissonIntegral_window_not_checked:
  "(tMin = tMax \<longrightarrow> poissonIntegral c events rate tMin tMax = (Inl ValueError, c))
   \<and> (tMax < tMin \<longrightarrow> (\<exists>v c'. poissonIntegral c events rate tMin tMax = (Inr v, c')))
   \<and> (tMax < tMin \<and> (\<forall>e\<in>set events. e < tMin)
        \<longrightarrow> poissonIntegral c events rate tMin tMax = (Inr (Fin 0), c))"
  using poissonIntegral_equal_bounds[of c events rate tMin]
    poissonIntegral_reversed_returns[of tMax tMin c events rate]
    poissonIntegral_reversed_no_events[of tMax tMin events c rate]
  by blast

theorem poissonIntegral_window_not_checked_witness:
  "(1::real) = 1 \<and> poissonIntegral Map.empty [1/2] 2 1 1 = (Inl ValueError, Map.empty)
   \<and> (0::real) < 1 \<and> (1/2 :: real) < 1
   \<and> (\<exists>v c'. poissonIntegral Map.empty [1/2] 2 1 0 = (Inr v, c'))
   \<and> poissonIntegral Map.empty [1/2] 2 1 0 = (Inr (Fin 0), Map.empty)"
  using poissonIntegral_window_not_checked[of 1 1 Map.empty "[1/2]" 2]
    poissonIntegral_window_not_checked[of 1 0 Map.empty "[1/2]" 2]
  by simp


text \<open>
  Claim C10 as the specification states it fails: for \<open>tMin = 1\<close>, \<open>tMax = 0\<close> and no events
  the call returns \<open>0\<close> and leaves the cache as it was.
\<close>

theorem poissonIntegral_reversed_window_returns:
  "poissonIntegral Map.empty [] 1 1 0 = (Inr (Fin 0), Map.empty)"
  by (rule poissonIntegral_reversed_no_events) simp_all


section \<open>The blame vectors\<close>

text \<open>
  Claim C9. A vector returned by \<open>poissonScoreBlame\<close> or \<open>poissonIntegralBlame\<close> has no
  \<open>nan\<close> entry; and when the loop of either function has computed a vector with a \<open>nan\<close>
  entry, the call raises \<open>AssertionError\<close> instead of returning it. Both follow from the
  \<^verbatim>\<open>assert not any(np.isnan(pp))\<close> of lines 217 and 230; the ratios, \<open>max\<close> and \<open>sum\<close> all
  propagate \<open>nan\<close>, so a \<open>nan\<close> inside the loop reaches the vector. Both functions are then
  run on inputs that return (an event at \<open>0.1\<close>; the window \<open>[1, 2]\<close>) and on inputs where a
  probability vanishes (an event at time \<open>0\<close>; a window that starts at \<open>0\<close>) and the ratio is
  \<open>inf / inf\<close>.
\<close>

theorem blame_vector_no_nan:
  "(poissonScoreBlame g ev rate = Inr v \<longrightarrow> \<not> list_ex isnan v)
   \<and> (poissonIntegralBlame c evs r xMin xMax = (Inr w, c') \<longrightarrow> \<not> list_ex isnan w)
   \<and> (items ev \<noteq> [] \<and> poissonScoreBlame_loop g ev rate [0..<length (items ev)] = Inr pp
        \<and> list_ex isnan pp
      \<longrightarrow> poissonScoreBlame g ev rate = Inl AssertionError)
   \<and> (poissonIntegralBlame_loop c evs r xMin xMax [0..<length evs] = (Inr pq, c'')
        \<and> list_ex isnan pq
      \<longrightarrow> poissonIntegralBlame c evs r xMin xMax = (Inl AssertionError, c''))"
  by (auto simp: poissonScoreBlame_def poissonIntegralBlame_def exc_bind_def
      split: sum.splits prod.splits if_splits)

theorem blame_vector_no_nan_witness:
  "poissonScoreBlame (globals_at 157) (NdArray [1/10]) 2 = Inr [Fin 1]
   \<and> \<not> list_ex isnan [Fin 1]
   \<and> (\<exists>w c'. poissonIntegralBlame Map.empty [3/2] 1 1 2 = (Inr w, c') \<and> \<not> list_ex isnan w)
   \<and> items (NdArray [0]) \<noteq> []
   \<and> poissonScoreBlame_loop (globals_at 157) (NdArray [0]) 2 [0..<length (items (NdArray [0]))]
       = Inr [NaN]
   \<and> list_ex isnan [NaN]
   \<and> poissonScoreBlame (globals_at 157) (NdArray [0]) 2 = Inl AssertionError
   \<and> (\<exists>c''. poissonIntegralBlame_loop Map.empty [2] 1 0 1 [0..<length [2::real]]
               = (Inr [NaN], c'')
             \<and> poissonIntegralBlame Map.empty [2] 1 0 1 = (Inl AssertionError, c''))"
proof -
  obtain w c' where w: "poissonIntegralBlame Map.empty [3/2] 1 1 2 = (Inr w, c')"
    using poissonIntegralBlame_returns[of 1 1 2 "[3/2]"] by auto
  obtain c'' where c:
    "poissonIntegralBlame_loop Map.empty [2] 1 0 1 [0..<length [2::real]] = (Inr [NaN], c'')"
    using integralBlame_from_zero by auto
  have i: "items (NdArray [0]) \<noteq> []" by simp
  have s: "poissonScoreBlame_loop (globals_at 157) (NdArray [0]) 2
             [0..<length (items (NdArray [0]))] = Inr [NaN]"
    using scoreBlame_event_at_zero by simp
  have n: "list_ex isnan [NaN]" by (simp add: isnan_def)
  note A = blame_vector_no_nan[where g = "globals_at 157" and ev = "NdArray [1/10]"
      and rate = 2 and v = "[Fin 1]" and c = Map.empty and evs = "[3/2]" and r = 1
      and xMin = 1 and xMax = 2 and w = w and c' = c' and pp = "[]" and pq = "[]"
      and c'' = Map.empty]
  note B = blame_vector_no_nan[where g = "globals_at 157" and ev = "NdArray [0]"
      and rate = 2 and v = "[]" and c = Map.empty and evs = "[2]" and r = 1
      and xMin = 0 and xMax = 1 and w = "[]" and c' = Map.empty and pp = "[NaN]"
      and pq = "[NaN]" and c'' = c'']
  have a1: "\<not> list_ex isnan [Fin 1]" using A scoreBlame_one_event by blast
  have a2: "\<not> list_ex isnan w" using A w by blast
  have b3: "poissonScoreBlame (globals_at 157) (NdArray [0]) 2 = Inl AssertionError"
    using B i s n by blast
  have b4: "poissonIntegralBlame Map.empty [2] 1 0 1 = (Inl AssertionError, c'')"
    using B c n by blast
  show ?thesis
    using scoreBlame_one_event a1 w a2 i s n b3 c b4 by blast
qed


end
